theory Spec2Isabelle
  imports Main "HOL-Library.Word" "HOL-Library.Signed_Division"
begin

section \<open>Common types\<close>

type_synonym byte = "8 word"
type_synonym bytes = "byte list"

text \<open>A node public key is a Go \<^verbatim>\<open>[32]byte\<close>; \<^verbatim>\<open>NoPubKey\<close> is the zero array
  (\<^verbatim>\<open>var NoPubKey [32]byte\<close>, service.go line 53).\<close>

type_synonym pubkey = bytes

text \<open>\<^verbatim>\<open>dnet.Tag4CC\<close> is a \<^verbatim>\<open>uint32\<close> (it is scanned through one in \<^verbatim>\<open>GetChannels\<close>).\<close>

type_synonym Tag4CC = "32 word"

definition NoPubKey :: pubkey where
  "NoPubKey = replicate 32 0"

section \<open>Peer tracking in the net service (internal/netsvc/service.go)\<close>

text \<open>
  Connections (\<^verbatim>\<open>net.Conn\<close>) and peer sessions (\<^verbatim>\<open>*peerConn\<close>) are compared by identity
  in the source, so each is modelled by a number standing for the pointer. The fields of
  \<^verbatim>\<open>NetService\<close> that the tracking primitives read or write are kept under their own
  names; \<^verbatim>\<open>stopping\<close> is the answer of \<^verbatim>\<open>ns.Stopping()\<close> (governor.ServiceCtx).
  Every primitive runs under \<^verbatim>\<open>ns.mutex\<close>, so each is one atomic state transformer.
\<close>

type_synonym conn = nat
type_synonym peerRef = nat
type_synonym handlerRef = nat

text \<open>
  \<^verbatim>\<open>spec.Address\<close> is the gossip library's address: a host (\<^verbatim>\<open>net.IP\<close>, a byte slice)
  and a port. \<^verbatim>\<open>node.AddressMsg\<close> is the body of an announcement, \<^verbatim>\<open>dnet.KeyPair\<close> the
  node's key pair, \<^verbatim>\<open>RawMessage\<close> (lines 48-51) an encoded message.
\<close>

record Address =
  Host :: bytes
  Port :: "16 word"

record AddressMsg =
  am_Time :: int
  am_Address :: bytes
  am_Port :: "16 word"
  am_Owner :: bytes
  am_Channels :: "Tag4CC list"
  am_Services :: "(Tag4CC \<times> 16 word) list"

record KeyPair =
  Priv :: bytes
  Pub :: bytes

record RawMessage =
  Header :: bytes
  Payload :: bytes

text \<open>
  A Go channel variable is either nil (its zero value) or refers to a channel made by
  \<^verbatim>\<open>make\<close>. Nothing can ever be received from a nil channel.
\<close>

datatype chan_ref = NilChan | MadeChan

record NetService =
  stopping :: bool
  bindAddrs :: "Address list"
  allowLocal :: bool
  nodeKey :: KeyPair
  connections :: "conn list"
  lockedPeers :: "pubkey \<rightharpoonup> int"
  connectedPeers :: "pubkey \<rightharpoonup> peerRef"
  handlers :: "handlerRef list"
  addrChange :: chan_ref
  nextAnnounce :: AddressMsg
  encAnnounce :: RawMessage

text \<open>
  \<^verbatim>\<open>net.IP.To16\<close> of the Go standard library: a 4-byte address becomes its IPv4-mapped
  16-byte form, a 16-byte address is returned as it is, anything else gives nil.
\<close>

definition To16 :: "bytes \<Rightarrow> bytes" where
  "To16 ip =
     (if length ip = 4 then replicate 10 0 @ [0xff, 0xff] @ ip
      else if length ip = 16 then ip
      else [])"

text \<open>
  \<^verbatim>\<open>New\<close> (lines 55-77). The composite literal names \<^verbatim>\<open>bindAddrs\<close>, \<^verbatim>\<open>allowLocal\<close>,
  \<^verbatim>\<open>channels\<close>, \<^verbatim>\<open>store\<close>, \<^verbatim>\<open>nodeKey\<close>, \<^verbatim>\<open>lockedPeers\<close>, \<^verbatim>\<open>connectedPeers\<close>,
  \<^verbatim>\<open>newPeers\<close> and \<^verbatim>\<open>nextAnnounce\<close>; every other field keeps its zero value, so
  \<^verbatim>\<open>addrChange\<close> is nil. \<^verbatim>\<open>ServiceCore\<close> is the gossip library's tag \<^verbatim>\<open>dnet.ServiceCore\<close>.
\<close>

definition New ::
  "Tag4CC \<Rightarrow> Address list \<Rightarrow> Address \<Rightarrow> bytes \<Rightarrow> KeyPair \<Rightarrow> bool \<Rightarrow> NetService" where
  "New ServiceCore bind public idenPub nodeKey' allowLocal' =
     \<lparr>stopping = False,
      bindAddrs = bind,
      allowLocal = allowLocal',
      nodeKey = nodeKey',
      connections = [],
      lockedPeers = Map.empty,
      connectedPeers = Map.empty,
      handlers = [],
      addrChange = NilChan,
      nextAnnounce = \<lparr>am_Time = 0, am_Address = To16 (Host public), am_Port = Port public,
                      am_Owner = idenPub, am_Channels = [],
                      am_Services = [(ServiceCore, 22556)]\<rparr>,
      encAnnounce = \<lparr>Header = [], Payload = []\<rparr>\<rparr>"

text \<open>\<^verbatim>\<open>havePeer\<close> (lines 398-403).\<close>

definition havePeer :: "NetService \<Rightarrow> pubkey \<Rightarrow> bool" where
  "havePeer ns pubKey = (case connectedPeers ns pubKey of Some p \<Rightarrow> True | None \<Rightarrow> False)"

text \<open>\<^verbatim>\<open>countPeers\<close> (lines 373-377) is \<^verbatim>\<open>len(ns.connectedPeers)\<close>.\<close>

definition countPeers :: "NetService \<Rightarrow> nat" where
  "countPeers ns = card (dom (connectedPeers ns))"

text \<open>
  \<^verbatim>\<open>trackPeer\<close> (lines 408-425): refuses when the service is stopping; otherwise it appends
  the connection first, and only then looks at the key. The zero key means "not known
  yet" (an inbound connection) and skips the table altogether.
\<close>

definition trackPeer :: "conn \<Rightarrow> peerRef \<Rightarrow> pubkey \<Rightarrow> NetService \<Rightarrow> bool \<times> NetService" where
  "trackPeer c peer pubKey ns =
     (if stopping ns then (False, ns)
      else
        let ns1 = ns\<lparr>connections := connections ns @ [c]\<rparr> in
        if pubKey \<noteq> NoPubKey then
          (case connectedPeers ns1 pubKey of
             Some p \<Rightarrow> (False, ns1)
           | None \<Rightarrow> (True, ns1\<lparr>connectedPeers := (connectedPeers ns1)(pubKey \<mapsto> peer)\<rparr>))
        else (True, ns1))"

text \<open>\<^verbatim>\<open>adoptPeer\<close> (lines 429-438): no stopping check and no special case for the zero key.\<close>

definition adoptPeer :: "peerRef \<Rightarrow> pubkey \<Rightarrow> NetService \<Rightarrow> bool \<times> NetService" where
  "adoptPeer peer pubKey ns =
     (case connectedPeers ns pubKey of
        Some p \<Rightarrow> (False, ns)
      | None \<Rightarrow> (True, ns\<lparr>connectedPeers := (connectedPeers ns)(pubKey \<mapsto> peer)\<rparr>))"

text \<open>
  The "remove from unordered array" loop of \<^verbatim>\<open>closePeer\<close> and \<^verbatim>\<open>closeHandler\<close>:
  the first element equal to \<^verbatim>\<open>c\<close> is overwritten by the last one and the slice is
  shortened by one; nothing happens when \<^verbatim>\<open>c\<close> does not occur.
\<close>

fun find_index_of :: "'a \<Rightarrow> 'a list \<Rightarrow> nat option" where
  "find_index_of c [] = None"
| "find_index_of c (x # xs) =
     (if x = c then Some 0 else map_option Suc (find_index_of c xs))"

definition remove_unordered :: "'a \<Rightarrow> 'a list \<Rightarrow> 'a list" where
  "remove_unordered c xs =
     (case find_index_of c xs of
        None \<Rightarrow> xs
      | Some i \<Rightarrow> butlast (xs[i := last xs]))"

text \<open>
  \<^verbatim>\<open>closePeer\<close> (lines 441-461). The session's own fields \<^verbatim>\<open>peer.conn\<close> and
  \<^verbatim>\<open>peer.peerPub\<close> are passed beside its identity.
\<close>

definition closePeer :: "peerRef \<Rightarrow> conn \<Rightarrow> pubkey \<Rightarrow> NetService \<Rightarrow> NetService" where
  "closePeer peer c key ns =
     (let ns1 = (if connectedPeers ns key = Some peer
                 then ns\<lparr>connectedPeers := (connectedPeers ns)(key := None)\<rparr>
                 else ns)
      in ns1\<lparr>connections := remove_unordered c (connections ns1)\<rparr>)"

section \<open>The store (internal/store/sqlite.go)\<close>

subsection \<open>Integers and time\<close>

text \<open>
  Go's \<^verbatim>\<open>int64\<close> arithmetic wraps around; \<^verbatim>\<open>int64 x\<close> is the value an \<^verbatim>\<open>int64\<close>
  variable holds after the mathematical result \<^verbatim>\<open>x\<close> has been stored in it. SQL integer
  columns are modelled by \<^typ>\<open>int\<close>; sums computed inside SQL statements are the
  mathematical sums (SQLite does not wrap: it is exact wherever the sum fits 64 bits).
\<close>

definition int64 :: "int \<Rightarrow> int" where
  "int64 x = sint (word_of_int x :: 64 word)"

definition SecondsPerDay :: int where
  "SecondsPerDay = 24 * 60 * 60"

definition MaxCoreNodeDays :: int where
  "MaxCoreNodeDays = 3"

text \<open>
  \<^verbatim>\<open>unixDayStamp\<close> (lines 134-136) is \<^verbatim>\<open>time.Now().Unix() / spec.SecondsPerDay\<close>; the
  reading of the clock, in seconds since the epoch, is the argument. Go's division
  truncates towards zero.
\<close>

definition unixDayStamp :: "int \<Rightarrow> int" where
  "unixDayStamp now = now sdiv SecondsPerDay"

subsection \<open>Errors\<close>

text \<open>
  \<^verbatim>\<open>NotFoundError\<close> is the sentinel \<^verbatim>\<open>spec.NotFoundError\<close>, \<^verbatim>\<open>ErrNoRows\<close> is
  \<^verbatim>\<open>sql.ErrNoRows\<close>, \<^verbatim>\<open>ErrConstraint\<close> a violated NOT NULL or PRIMARY KEY constraint,
  \<^verbatim>\<open>EngineError\<close> any other error a call into database/sql reports. \<^verbatim>\<open>Errorf p e\<close> is
  \<^verbatim>\<open>fmt.Errorf(p + ": %v", e)\<close>: a new error that carries only the text of \<^verbatim>\<open>e\<close> (the
  verb is \<^verbatim>\<open>%v\<close>, not \<^verbatim>\<open>%w\<close>), so it is not the sentinel it was made from.
  \<^verbatim>\<open>DBProblem p e\<close> is what \<^verbatim>\<open>dbErr\<close> makes of an error that is neither not-found,
  a constraint nor a conflict.
\<close>

datatype error =
    NotFoundError
  | ErrNoRows
  | ErrConstraint
  | EngineError
  | Errorf string error
  | AlreadyExists string error
  | DBProblem string error

text \<open>\<^verbatim>\<open>dbErr\<close> (lines 195-213), without the busy/locked case (see \<^verbatim>\<open>doTxn\<close> below).\<close>

fun dbErr :: "error \<Rightarrow> string \<Rightarrow> error" where
  "dbErr NotFoundError wh = NotFoundError"
| "dbErr ErrConstraint wh = AlreadyExists ''SQLiteStore: already-exists'' ErrConstraint"
| "dbErr e wh = DBProblem (''SQLiteStore: db-problem: '' @ wh) e"

text \<open>
  The database engine can refuse any call (disk full, closed handle, cancelled context,
  a value it cannot convert). \<^verbatim>\<open>f n\<close> says that the call on line \<^verbatim>\<open>n\<close> of sqlite.go
  reports such an error in this transaction. What depends on the stored data (no row,
  a NULL stored into a NOT NULL column, a duplicate primary key) is computed from the tables.
\<close>

type_synonym faults = "nat \<Rightarrow> bool"

subsection \<open>Tables\<close>

text \<open>
  The schema (\<^verbatim>\<open>SQL_SCHEMA\<close>, lines 40-79). A table is the list of its rows in
  insertion order.
\<close>

record core_row =
  core_address :: bytes
  core_time :: int
  core_services :: int
  core_isnew :: bool
  core_dayc :: int

record node_row =
  node_oid :: int
  node_key :: bytes
  node_address :: bytes
  node_time :: int
  node_owner :: bytes
  node_payload :: bytes
  node_sig :: bytes
  node_dayc :: int

record db =
  config :: "(int \<times> int) list"
  announce :: "(bytes \<times> bytes \<times> int) list"
  channels :: "(Tag4CC \<times> int) list"
  core :: "core_row list"
  node :: "node_row list"
  chan :: "(int \<times> string) list"

definition empty_db :: db where
  "empty_db = \<lparr>config = [], announce = [], channels = [], core = [], node = [], chan = []\<rparr>"

subsection \<open>Transactions\<close>

text \<open>
  \<^verbatim>\<open>doTxn\<close> (lines 147-186) begins a transaction, runs \<^verbatim>\<open>work\<close> and commits; the deferred
  \<^verbatim>\<open>tx.Rollback()\<close> undoes the work when anything failed. The work is a closure over the
  caller's named results, so it returns them beside its error and the tables; they keep
  what the work assigned even when the transaction fails, and \<^verbatim>\<open>zero\<close> (their initial
  values) when the work never ran.

  Not modelled: the transient \<^verbatim>\<open>ErrBusy\<close>/\<^verbatim>\<open>ErrLocked\<close> results and the loop that sleeps
  250 ms and tries again at most 120 times. Every engine verdict here is final.
\<close>

definition doTxn ::
  "faults \<Rightarrow> string \<Rightarrow> 'r \<Rightarrow> (db \<Rightarrow> 'r \<times> error option \<times> db) \<Rightarrow> db \<Rightarrow> 'r \<times> error option \<times> db" where
  "doTxn f name zero work d =
     (if f 150 then (zero, Some (dbErr EngineError (''cannot begin transaction: '' @ name)), d)
      else
        (case work d of
           (r, Some e, d') \<Rightarrow> (r, Some e, d)
         | (r, None, d') \<Rightarrow>
             if f 173 then (r, Some (dbErr EngineError (''cannot commit: '' @ name)), d)
             else (r, None, d')))"

text \<open>\<^verbatim>\<open>initConfig\<close> (lines 109-124): a fresh database gets day counter 1.\<close>

definition initConfig_work :: "faults \<Rightarrow> int \<Rightarrow> db \<Rightarrow> unit \<times> error option \<times> db" where
  "initConfig_work f now d =
     (case config d of
        (dayc, lst) # rest \<Rightarrow>
          if f 115 then ((), Some EngineError, d) else ((), None, d)
      | [] \<Rightarrow>
          if f 118 then ((), Some EngineError, d)
          else ((), None, d\<lparr>config := [(1, unixDayStamp now)]\<rparr>))"

definition initConfig :: "faults \<Rightarrow> int \<Rightarrow> db \<Rightarrow> error option \<times> db" where
  "initConfig f now d = snd (doTxn f ''init config'' () (initConfig_work f now) d)"

subsection \<open>TrimNodes\<close>

text \<open>
  \<^verbatim>\<open>TrimNodes\<close> (lines 345-398). The named results are \<^verbatim>\<open>(advanced, remCore, remNode)\<close>.
  \<^verbatim>\<open>UPDATE config\<close> has no WHERE clause and rewrites every row of \<^verbatim>\<open>config\<close>. The count
  returned by the third \<^verbatim>\<open>RowsAffected\<close> (line 390) is assigned to \<^verbatim>\<open>remNode\<close> again.
  A failing \<^verbatim>\<open>RowsAffected\<close> is taken to return 0 beside its error.
\<close>

definition TrimNodes_work :: "faults \<Rightarrow> int \<Rightarrow> db \<Rightarrow> (bool \<times> int \<times> int) \<times> error option \<times> db" where
  "TrimNodes_work f now d =
     (case config d of
        [] \<Rightarrow> ((False, 0, 0), Some (Errorf ''TrimNodes: SELECT config'' ErrNoRows), d)
      | (dayc0, lst) # rest \<Rightarrow>
          if f 351 then ((False, 0, 0), Some (Errorf ''TrimNodes: SELECT config'' EngineError), d)
          else
            let today = unixDayStamp now in
            if lst \<noteq> today then
              let dayc = int64 (dayc0 + 1) in
              if f 360 then ((True, 0, 0), Some (Errorf ''TrimNodes: UPDATE config'' EngineError), d)
              else
                let d1 = d\<lparr>config := map (\<lambda>row. (dayc, today)) (config d)\<rparr> in
                if f 366 then ((True, 0, 0), Some (Errorf ''TrimNodes: DELETE core'' EngineError), d1)
                else
                  let remCore = int (length (filter (\<lambda>r. core_dayc r < dayc) (core d1)));
                      d2 = d1\<lparr>core := filter (\<lambda>r. \<not> core_dayc r < dayc) (core d1)\<rparr> in
                  if f 370 then ((True, 0, 0), Some (Errorf ''TrimNodes: rows-affected'' EngineError), d2)
                  else if f 376 then ((True, remCore, 0), Some (Errorf ''TrimNodes: DELETE node'' EngineError), d2)
                  else
                    let remNode = int (length (filter (\<lambda>r. node_dayc r < dayc) (node d2)));
                        d3 = d2\<lparr>node := filter (\<lambda>r. \<not> node_dayc r < dayc) (node d2)\<rparr> in
                    if f 380 then ((True, remCore, 0), Some (Errorf ''TrimNodes: rows-affected'' EngineError), d3)
                    else if f 386 then ((True, remCore, remNode), Some (Errorf ''TrimNodes: DELETE channel'' EngineError), d3)
                    else
                      let remNode' = int (length (filter (\<lambda>(c, n). n < dayc) (channels d3)));
                          d4 = d3\<lparr>channels := filter (\<lambda>(c, n). \<not> n < dayc) (channels d3)\<rparr> in
                      if f 390 then ((True, remCore, 0), Some (Errorf ''TrimNodes: rows-affected'' EngineError), d4)
                      else ((True, remCore, remNode'), None, d4)
            else ((False, 0, 0), None, d))"

definition TrimNodes :: "faults \<Rightarrow> int \<Rightarrow> db \<Rightarrow> (bool \<times> int \<times> int) \<times> error option \<times> db" where
  "TrimNodes f now d = doTxn f ''TrimNodes'' (False, 0, 0) (TrimNodes_work f now) d"

subsection \<open>SQL statements\<close>

text \<open>
  \<^verbatim>\<open>exec f n r\<close> is a call into the engine on line \<^verbatim>\<open>n\<close>: the engine's own failure
  if it reports one, and the statement's result \<^verbatim>\<open>r\<close> on the tables otherwise.
\<close>

definition exec :: "faults \<Rightarrow> nat \<Rightarrow> error + 'a \<Rightarrow> error + 'a" where
  "exec f n r = (if f n then Inl EngineError else r)"

text \<open>\<^verbatim>\<open>(SELECT dayc FROM config LIMIT 1)\<close>: NULL (\<^verbatim>\<open>None\<close>) when \<^verbatim>\<open>config\<close> has no row.\<close>

definition config_dayc :: "db \<Rightarrow> int option" where
  "config_dayc d = (case config d of [] \<Rightarrow> None | (dayc, lst) # rest \<Rightarrow> Some dayc)"

text \<open>
  \<^verbatim>\<open>UPDATE core SET time=?, services=?, dayc=MAX(dayc,?+(SELECT dayc FROM config LIMIT 1))
  WHERE address=?\<close> (line 403), with the number of rows it changed. A sum with NULL is
  NULL, and \<^verbatim>\<open>core.dayc\<close> is NOT NULL.
\<close>

definition update_core :: "int \<Rightarrow> int \<Rightarrow> int \<Rightarrow> bytes \<Rightarrow> db \<Rightarrow> error + (int \<times> db)" where
  "update_core unixTimeSec services remainDays addrKey d =
     (if filter (\<lambda>r. core_address r = addrKey) (core d) = [] then Inr (0, d)
      else
        (case config_dayc d of
           None \<Rightarrow> Inl ErrConstraint
         | Some dayc \<Rightarrow>
             Inr (int (length (filter (\<lambda>r. core_address r = addrKey) (core d))),
                  d\<lparr>core := map (\<lambda>r. if core_address r = addrKey
                                      then r\<lparr>core_time := unixTimeSec, core_services := services,
                                             core_dayc := max (core_dayc r) (remainDays + dayc)\<rparr>
                                      else r) (core d)\<rparr>)))"

text \<open>
  \<^verbatim>\<open>INSERT INTO core (address, time, services, isnew, dayc)
  VALUES (?1,?2,?3,true,?+(SELECT dayc FROM config LIMIT 1))\<close> (line 412); \<^verbatim>\<open>address\<close> is
  the primary key.
\<close>

definition insert_core :: "bytes \<Rightarrow> int \<Rightarrow> int \<Rightarrow> int \<Rightarrow> db \<Rightarrow> error + db" where
  "insert_core addrKey unixTimeSec services remainDays d =
     (case config_dayc d of
        None \<Rightarrow> Inl ErrConstraint
      | Some dayc \<Rightarrow>
          if addrKey \<in> set (map core_address (core d)) then Inl ErrConstraint
          else Inr (d\<lparr>core := core d @
                 [\<lparr>core_address = addrKey, core_time = unixTimeSec, core_services = services,
                   core_isnew = True, core_dayc = remainDays + dayc\<rparr>]\<rparr>))"

text \<open>\<^verbatim>\<open>SELECT oid,payload FROM node WHERE key=? LIMIT 1\<close> with its \<^verbatim>\<open>Scan\<close> (lines 535-538).\<close>

definition select_node :: "bytes \<Rightarrow> db \<Rightarrow> error + (int \<times> bytes)" where
  "select_node key d =
     (case find (\<lambda>r. node_key r = key) (node d) of
        None \<Rightarrow> Inl ErrNoRows
      | Some r \<Rightarrow> Inr (node_oid r, node_payload r))"

text \<open>
  \<^verbatim>\<open>node\<close> is a rowid table: a new row gets the largest rowid of the table plus one
  (1 in an empty table), which \<^verbatim>\<open>LastInsertId\<close> then returns.
\<close>

definition next_rowid :: "db \<Rightarrow> int" where
  "next_rowid d = foldr max (map node_oid (node d)) 0 + 1"

text \<open>
  \<^verbatim>\<open>INSERT INTO node (key, address, time, owner, payload, sig, dayc)
  VALUES (?1,?2,?3,?4,?5,?6,30+(SELECT dayc FROM config LIMIT 1))\<close> (line 545).
\<close>

definition insert_node ::
  "bytes \<Rightarrow> bytes \<Rightarrow> int \<Rightarrow> bytes \<Rightarrow> bytes \<Rightarrow> bytes \<Rightarrow> db \<Rightarrow> error + (int \<times> db)" where
  "insert_node key addr tm owner payload sg d =
     (case config_dayc d of
        None \<Rightarrow> Inl ErrConstraint
      | Some dayc \<Rightarrow>
          if key \<in> set (map node_key (node d)) then Inl ErrConstraint
          else Inr (next_rowid d,
                 d\<lparr>node := node d @
                   [\<lparr>node_oid = next_rowid d, node_key = key, node_address = addr, node_time = tm,
                     node_owner = owner, node_payload = payload, node_sig = sg,
                     node_dayc = 30 + dayc\<rparr>]\<rparr>))"

text \<open>
  \<^verbatim>\<open>UPDATE node SET address=?, time=?, owner=?, payload=?, sig=?,
  dayc=30+(SELECT dayc FROM config LIMIT 1) WHERE key=?\<close> (line 559).
\<close>

definition update_node ::
  "bytes \<Rightarrow> int \<Rightarrow> bytes \<Rightarrow> bytes \<Rightarrow> bytes \<Rightarrow> bytes \<Rightarrow> db \<Rightarrow> error + db" where
  "update_node addr tm owner payload sg key d =
     (if filter (\<lambda>r. node_key r = key) (node d) = [] then Inr d
      else
        (case config_dayc d of
           None \<Rightarrow> Inl ErrConstraint
         | Some dayc \<Rightarrow>
             Inr (d\<lparr>node := map (\<lambda>r. if node_key r = key
                                      then r\<lparr>node_address := addr, node_time := tm,
                                             node_owner := owner, node_payload := payload,
                                             node_sig := sg, node_dayc := 30 + dayc\<rparr>
                                      else r) (node d)\<rparr>)))"

text \<open>\<^verbatim>\<open>UPDATE node SET dayc=30+(SELECT dayc FROM config LIMIT 1) WHERE key=?\<close> (line 587).\<close>

definition update_node_dayc :: "bytes \<Rightarrow> db \<Rightarrow> error + db" where
  "update_node_dayc key d =
     (if filter (\<lambda>r. node_key r = key) (node d) = [] then Inr d
      else
        (case config_dayc d of
           None \<Rightarrow> Inl ErrConstraint
         | Some dayc \<Rightarrow>
             Inr (d\<lparr>node := map (\<lambda>r. if node_key r = key then r\<lparr>node_dayc := 30 + dayc\<rparr> else r)
                               (node d)\<rparr>)))"

text \<open>\<^verbatim>\<open>DELETE FROM chan WHERE node=?\<close> (line 565).\<close>

definition delete_chan :: "int \<Rightarrow> db \<Rightarrow> db" where
  "delete_chan oid d = d\<lparr>chan := filter (\<lambda>(n, c). n \<noteq> oid) (chan d)\<rparr>"

text \<open>
  \<^verbatim>\<open>INSERT INTO chan (node,chan) VALUES (?,?)\<close> (lines 569, 574); the pair is the
  primary key.
\<close>

definition insert_chan :: "int \<Rightarrow> string \<Rightarrow> db \<Rightarrow> error + db" where
  "insert_chan oid c d =
     (if (oid, c) \<in> set (chan d) then Inl ErrConstraint
      else Inr (d\<lparr>chan := chan d @ [(oid, c)]\<rparr>))"

text \<open>
  \<^verbatim>\<open>ORDER BY RANDOM() LIMIT 1\<close> over the rows \<^verbatim>\<open>xs\<close> that pass the WHERE clause:
  the engine's random numbers decide; \<^verbatim>\<open>rnd\<close> stands for their outcome, as the
  position it selects.
\<close>

definition random_row :: "nat \<Rightarrow> 'a list \<Rightarrow> error + 'a" where
  "random_row rnd xs = (if xs = [] then Inl ErrNoRows else Inr (xs ! (rnd mod length xs)))"

subsection \<open>Core nodes\<close>

text \<open>
  \<^verbatim>\<open>AddCoreNode\<close> (lines 400-420). \<^verbatim>\<open>ToBytes\<close> is \<^verbatim>\<open>Address.ToBytes\<close> of the gossip
  library (the 18-byte form of an address), a parameter here.
\<close>

definition AddCoreNode_work ::
  "faults \<Rightarrow> ('a \<Rightarrow> bytes) \<Rightarrow> 'a \<Rightarrow> int \<Rightarrow> int \<Rightarrow> int \<Rightarrow> db \<Rightarrow> unit \<times> error option \<times> db" where
  "AddCoreNode_work f ToBytes address unixTimeSec remainDays services d =
     (let addrKey = ToBytes address in
      case exec f 403 (update_core unixTimeSec services remainDays addrKey d) of
        Inl e \<Rightarrow> ((), Some (Errorf ''update'' e), d)
      | Inr (num, d1) \<Rightarrow>
          if f 407 then ((), Some (Errorf ''rows-affected'' EngineError), d1)
          else if num = 0 then
            (case exec f 412 (insert_core addrKey unixTimeSec services remainDays d1) of
               Inl e \<Rightarrow> ((), Some (Errorf ''insert'' e), d1)
             | Inr d2 \<Rightarrow> ((), None, d2))
          else ((), None, d1))"

definition AddCoreNode ::
  "faults \<Rightarrow> ('a \<Rightarrow> bytes) \<Rightarrow> 'a \<Rightarrow> int \<Rightarrow> int \<Rightarrow> int \<Rightarrow> db \<Rightarrow> error option \<times> db" where
  "AddCoreNode f ToBytes address unixTimeSec remainDays services d =
     snd (doTxn f ''AddCoreNode'' ()
            (AddCoreNode_work f ToBytes address unixTimeSec remainDays services) d)"

text \<open>
  \<^verbatim>\<open>ChooseCoreNode\<close> (lines 434-457). \<^verbatim>\<open>AddressFromBytes\<close> belongs to the gossip
  library and can refuse the stored bytes. \<^verbatim>\<open>rnd1\<close> and \<^verbatim>\<open>rnd2\<close> are the outcomes of
  the two random orderings.
\<close>

definition ChooseCoreNode_work ::
  "faults \<Rightarrow> (bytes \<Rightarrow> error + 'a) \<Rightarrow> nat \<Rightarrow> nat \<Rightarrow> db \<Rightarrow> 'a option \<times> error option \<times> db" where
  "ChooseCoreNode_work f AddressFromBytes rnd1 rnd2 d =
     (let decode = (\<lambda>addr.
            case AddressFromBytes addr of
              Inl e \<Rightarrow> (None, Some (Errorf ''invalid address'' e), d)
            | Inr res \<Rightarrow> (Some res, None, d))
      in
      case exec f 438 (random_row rnd1 (map core_address (filter (\<lambda>r. core_isnew r) (core d)))) of
        Inr addr \<Rightarrow> decode addr
      | Inl e \<Rightarrow>
          if e = ErrNoRows then
            (case exec f 442
                    (random_row rnd2 (map core_address (filter (\<lambda>r. \<not> core_isnew r) (core d)))) of
               Inl e' \<Rightarrow> (None, Some (Errorf ''query-not-new'' e'), d)
             | Inr addr \<Rightarrow> decode addr)
          else (None, Some (Errorf ''query-is-new'' e), d))"

text \<open>The result \<^verbatim>\<open>res\<close> is \<^verbatim>\<open>None\<close> where the source leaves the zero \<^verbatim>\<open>Address\<close>.\<close>

definition ChooseCoreNode ::
  "faults \<Rightarrow> (bytes \<Rightarrow> error + 'a) \<Rightarrow> nat \<Rightarrow> nat \<Rightarrow> db \<Rightarrow> 'a option \<times> error option \<times> db" where
  "ChooseCoreNode f AddressFromBytes rnd1 rnd2 d =
     doTxn f ''ChooseCoreNode'' None (ChooseCoreNode_work f AddressFromBytes rnd1 rnd2) d"

text \<open>
  \<^verbatim>\<open>ChooseNetNodeMsg\<close> (lines 622-636), the same selection over the \<^verbatim>\<open>node\<close> table: here
  an empty table is answered by the sentinel \<^verbatim>\<open>spec.NotFoundError\<close>.
\<close>

definition ChooseNetNodeMsg_work ::
  "faults \<Rightarrow> nat \<Rightarrow> db \<Rightarrow> (bytes \<times> bytes \<times> bytes) \<times> error option \<times> db" where
  "ChooseNetNodeMsg_work f rnd d =
     (case exec f 625 (random_row rnd (node d)) of
        Inl e \<Rightarrow>
          if e = ErrNoRows then (([], [], []), Some NotFoundError, d)
          else (([], [], []), Some (Errorf ''query'' e), d)
      | Inr r \<Rightarrow> ((node_key r, node_payload r, node_sig r), None, d))"

definition ChooseNetNodeMsg ::
  "faults \<Rightarrow> nat \<Rightarrow> db \<Rightarrow> (bytes \<times> bytes \<times> bytes) \<times> error option \<times> db" where
  "ChooseNetNodeMsg f rnd d = doTxn f ''ChooseNetNodeMsg'' ([], [], []) (ChooseNetNodeMsg_work f rnd) d"


subsection \<open>Overlay nodes\<close>

text \<open>
  The loop of \<^verbatim>\<open>AddNetNode\<close> over \<^verbatim>\<open>channels\<close> (lines 573-578). \<^verbatim>\<open>tagString\<close> is
  \<^verbatim>\<open>Tag4CC.String\<close> of the gossip library: what is stored for a channel.
\<close>

fun insert_channels ::
  "faults \<Rightarrow> (Tag4CC \<Rightarrow> string) \<Rightarrow> int \<Rightarrow> Tag4CC list \<Rightarrow> db \<Rightarrow> error + db" where
  "insert_channels f tagString oid [] d = Inr d"
| "insert_channels f tagString oid (channel # rest) d =
     (case exec f 574 (insert_chan oid (tagString channel) d) of
        Inl e \<Rightarrow> Inl e
      | Inr d1 \<Rightarrow> insert_channels f tagString oid rest d1)"

text \<open>Lines 565-580 of \<^verbatim>\<open>AddNetNode\<close>, where both branches meet: the channel rows of \<^verbatim>\<open>oid\<close> are replaced.\<close>

definition AddNetNode_channels ::
  "faults \<Rightarrow> (Tag4CC \<Rightarrow> string) \<Rightarrow> int \<Rightarrow> Tag4CC list \<Rightarrow> db \<Rightarrow> bool \<times> error option \<times> db" where
  "AddNetNode_channels f tagString oid chans d1 =
     (if f 565 then (False, Some (Errorf ''delete chans'' EngineError), d1)
      else
        let d2 = delete_chan oid d1 in
        if f 569 then (False, Some (Errorf ''prepare'' EngineError), d2)
        else
          (case insert_channels f tagString oid chans d2 of
             Inl e \<Rightarrow> (False, Some (Errorf ''insert channel'' e), d2)
           | Inr d3 \<Rightarrow> (True, None, d3)))"

text \<open>\<^verbatim>\<open>AddNetNode\<close> (lines 533-583); the named result is \<^verbatim>\<open>changed\<close>;
  \<^verbatim>\<open>chans\<close> is the parameter \<^verbatim>\<open>channels\<close>.\<close>

definition AddNetNode_work ::
  "faults \<Rightarrow> ('a \<Rightarrow> bytes) \<Rightarrow> (Tag4CC \<Rightarrow> string) \<Rightarrow> bytes \<Rightarrow> 'a \<Rightarrow> int \<Rightarrow> bytes \<Rightarrow> Tag4CC list \<Rightarrow>
     bytes \<Rightarrow> bytes \<Rightarrow> db \<Rightarrow> bool \<times> error option \<times> db" where
  "AddNetNode_work f ToBytes tagString key address tm owner chans payload sg d =
     (case exec f 538 (select_node key d) of
        Inl e \<Rightarrow>
          if e = ErrNoRows then
            (case exec f 545 (insert_node key (ToBytes address) tm owner payload sg d) of
               Inl e' \<Rightarrow> (False, Some (Errorf ''insert'' e'), d)
             | Inr (oid, d1) \<Rightarrow>
                 if f 550 then (False, Some (Errorf ''lastid'' EngineError), d1)
                 else AddNetNode_channels f tagString oid chans d1)
          else (False, Some (Errorf ''query'' e), d)
      | Inr (oid, stored) \<Rightarrow>
          if stored = payload then (False, None, d)
          else
            (case exec f 559 (update_node (ToBytes address) tm owner payload sg key d) of
               Inl e' \<Rightarrow> (False, Some (Errorf ''update'' e'), d)
             | Inr d1 \<Rightarrow> AddNetNode_channels f tagString oid chans d1))"

definition AddNetNode ::
  "faults \<Rightarrow> ('a \<Rightarrow> bytes) \<Rightarrow> (Tag4CC \<Rightarrow> string) \<Rightarrow> bytes \<Rightarrow> 'a \<Rightarrow> int \<Rightarrow> bytes \<Rightarrow> Tag4CC list \<Rightarrow>
     bytes \<Rightarrow> bytes \<Rightarrow> db \<Rightarrow> bool \<times> error option \<times> db" where
  "AddNetNode f ToBytes tagString key address tm owner chans payload sg d =
     doTxn f ''AddNetNode'' False
       (AddNetNode_work f ToBytes tagString key address tm owner chans payload sg) d"

text \<open>\<^verbatim>\<open>UpdateNetTime\<close> (lines 585-594).\<close>

definition UpdateNetTime_work :: "faults \<Rightarrow> bytes \<Rightarrow> db \<Rightarrow> unit \<times> error option \<times> db" where
  "UpdateNetTime_work f key d =
     (case exec f 587 (update_node_dayc key d) of
        Inl e \<Rightarrow> ((), Some (Errorf ''update'' e), d)
      | Inr d1 \<Rightarrow> ((), None, d1))"

definition UpdateNetTime :: "faults \<Rightarrow> bytes \<Rightarrow> db \<Rightarrow> error option \<times> db" where
  "UpdateNetTime f key d = snd (doTxn f ''UpdateNetTime'' () (UpdateNetTime_work f key) d)"

subsection \<open>The stored announcement\<close>

text \<open>
  \<^verbatim>\<open>GetAnnounce\<close> (lines 459-471); the named results are \<^verbatim>\<open>(payload, sig, time)\<close>. An
  empty table is not an error: the results stay empty.
\<close>

definition GetAnnounce_work ::
  "faults \<Rightarrow> db \<Rightarrow> (bytes \<times> bytes \<times> int) \<times> error option \<times> db" where
  "GetAnnounce_work f d =
     (case exec f 462 (case announce d of [] \<Rightarrow> Inl ErrNoRows | row # rest \<Rightarrow> Inr row) of
        Inl e \<Rightarrow>
          if e = ErrNoRows then (([], [], 0), None, d)
          else (([], [], 0), Some (Errorf ''query'' e), d)
      | Inr row \<Rightarrow> (row, None, d))"

definition GetAnnounce :: "faults \<Rightarrow> db \<Rightarrow> (bytes \<times> bytes \<times> int) \<times> error option \<times> db" where
  "GetAnnounce f d = doTxn f ''GetAnnounce'' ([], [], 0) (GetAnnounce_work f) d"

text \<open>
  \<^verbatim>\<open>SetAnnounce\<close> (lines 473-488): the UPDATE has no WHERE clause; a row is inserted
  when it changed none.
\<close>

definition SetAnnounce_work ::
  "faults \<Rightarrow> bytes \<Rightarrow> bytes \<Rightarrow> int \<Rightarrow> db \<Rightarrow> unit \<times> error option \<times> db" where
  "SetAnnounce_work f payload sg tm d =
     (if f 475 then ((), Some EngineError, d)
      else
        let num = length (announce d);
            d1 = d\<lparr>announce := map (\<lambda>row. (payload, sg, tm)) (announce d)\<rparr> in
        if f 479 then ((), Some EngineError, d1)
        else if num = 0 then
          (if f 484 then ((), Some EngineError, d1)
           else ((), None, d1\<lparr>announce := announce d1 @ [(payload, sg, tm)]\<rparr>))
        else ((), None, d1))"

definition SetAnnounce :: "faults \<Rightarrow> bytes \<Rightarrow> bytes \<Rightarrow> int \<Rightarrow> db \<Rightarrow> error option \<times> db" where
  "SetAnnounce f payload sg tm d =
     snd (doTxn f ''SetAnnounce'' () (SetAnnounce_work f payload sg tm) d)"


section \<open>The announcement task (internal/netsvc/service.go)\<close>

text \<open>
  What the announcement code calls in the gossip library (packages \<^verbatim>\<open>dnet\<close> and
  \<^verbatim>\<open>node\<close>, not part of this repository) is a parameter: \<^verbatim>\<open>Encode\<close> is
  \<^verbatim>\<open>AddressMsg.Encode\<close>, \<^verbatim>\<open>EncodeMessage\<close> and \<^verbatim>\<open>ReEncodeMessage\<close> are the functions of
  these names applied to \<^verbatim>\<open>node.ChannelNode\<close> and \<^verbatim>\<open>node.TagAddress\<close>, and
  \<^verbatim>\<open>MsgSignature\<close> and \<^verbatim>\<open>MsgHeader\<close> are \<^verbatim>\<open>dnet.MsgView(msg).Signature()\<close> and
  \<^verbatim>\<open>.Header()\<close>.
\<close>

record gossip =
  Encode :: "AddressMsg \<Rightarrow> bytes"
  DecodeAddrMsg :: "bytes \<Rightarrow> AddressMsg"
  AddrMsgMinSize :: nat
  EncodeMessage :: "KeyPair \<Rightarrow> bytes \<Rightarrow> bytes"
  ReEncodeMessage :: "bytes \<Rightarrow> bytes \<Rightarrow> bytes \<Rightarrow> bytes"
  MsgSignature :: "bytes \<Rightarrow> bytes"
  MsgHeader :: "bytes \<Rightarrow> bytes"
  UnixToDoge :: "int \<Rightarrow> int"

text \<open>
  A \<^verbatim>\<open>time.Duration\<close> is an \<^verbatim>\<open>int64\<close> count of nanoseconds.
  \<^verbatim>\<open>AnnounceLongevity\<close> is five minutes (line 24).
\<close>

definition Second :: int where
  "Second = 1000000000"

definition AnnounceLongevity :: int where
  "AnnounceLongevity = 5 * 60 * Second"

text \<open>\<^verbatim>\<open>setAnnounce\<close> (lines 238-242).\<close>

definition setAnnounce :: "RawMessage \<Rightarrow> NetService \<Rightarrow> NetService" where
  "setAnnounce msg ns = ns\<lparr>encAnnounce := msg\<rparr>"

text \<open>
  \<^verbatim>\<open>generateAnnounce\<close> (lines 304-316). \<^verbatim>\<open>now\<close> is the reading of the clock on line
  306, in whole seconds; \<^verbatim>\<open>now.Add(AnnounceLongevity).Unix()\<close> is 300 seconds later. A
  failure of \<^verbatim>\<open>SetAnnounce\<close> is logged and otherwise ignored.
\<close>

definition generateAnnounce ::
  "gossip \<Rightarrow> faults \<Rightarrow> int \<Rightarrow> AddressMsg \<Rightarrow> NetService \<Rightarrow> db \<Rightarrow> RawMessage \<times> int \<times> db" where
  "generateAnnounce lib f now newMsg ns d =
     (let newMsg1 = newMsg\<lparr>am_Time := UnixToDoge lib now\<rparr>;
          payload = Encode lib newMsg1;
          msg = EncodeMessage lib (nodeKey ns) payload;
          (err, d1) = SetAnnounce f payload (MsgSignature lib msg) (int64 (now + 300)) d
      in (\<lparr>Header = MsgHeader lib msg, Payload = payload\<rparr>, AnnounceLongevity, d1))"

text \<open>
  \<^verbatim>\<open>loadOrGenerateAnnounce\<close> (lines 281-302). \<^verbatim>\<open>now\<close> is the reading of the clock on
  line 284, \<^verbatim>\<open>now'\<close> the later one inside \<^verbatim>\<open>generateAnnounce\<close>.
\<close>

definition loadOrGenerateAnnounce ::
  "gossip \<Rightarrow> faults \<Rightarrow> int \<Rightarrow> int \<Rightarrow> NetService \<Rightarrow> db \<Rightarrow> RawMessage \<times> int \<times> db" where
  "loadOrGenerateAnnounce lib f now now' ns d =
     (case GetAnnounce f d of
        ((oldPayload, sg, expires), Some err, d0) \<Rightarrow>
          generateAnnounce lib f now' (nextAnnounce ns) ns d0
      | ((oldPayload, sg, expires), None, d0) \<Rightarrow>
          if length oldPayload \<ge> AddrMsgMinSize lib \<and> length sg = 64 \<and> now < expires then
            let oldMsg = DecodeAddrMsg lib oldPayload;
                newMsg = (nextAnnounce ns)\<lparr>am_Time := am_Time oldMsg\<rparr>
            in
            if Encode lib newMsg = oldPayload then
              (\<lparr>Header = ReEncodeMessage lib (Pub (nodeKey ns)) sg oldPayload, Payload = oldPayload\<rparr>,
               int64 (int64 (expires - now) * Second), d0)
            else generateAnnounce lib f now' (nextAnnounce ns) ns d0
          else generateAnnounce lib f now' (nextAnnounce ns) ns d0)"

text \<open>
  \<^verbatim>\<open>updateAnnounce\<close> (lines 245-279) is a goroutine that waits in a \<^verbatim>\<open>select\<close>. What
  happens around it is given round by round: whether the governor has stopped the service
  by the time of the loop test, which value (if any) another goroutine is trying to send
  on \<^verbatim>\<open>ns.addrChange\<close>, whether the timer has fired, whether the context is done, which
  of the ready cases the runtime picks, and the clock. A case on a nil channel is never
  ready. When no case is ready the goroutine stays blocked for that round. The timer is
  not modelled beyond its firing: stopping, draining and resetting it leave no trace
  here but the duration recorded in the step.
\<close>

record round =
  rd_stop :: bool
  rd_sender :: "AddressMsg option"
  rd_timer :: bool
  rd_done :: bool
  rd_choice :: nat
  rd_now :: int

datatype branch = AddrChange AddressMsg | TimerFired | ContextDone

definition ready :: "NetService \<Rightarrow> round \<Rightarrow> branch list" where
  "ready ns r =
     (case addrChange ns of
        NilChan \<Rightarrow> []
      | MadeChan \<Rightarrow> (case rd_sender r of None \<Rightarrow> [] | Some newMsg \<Rightarrow> [AddrChange newMsg]))
     @ (if rd_timer r then [TimerFired] else [])
     @ (if rd_done r then [ContextDone] else [])"

definition select :: "NetService \<Rightarrow> round \<Rightarrow> branch option" where
  "select ns r =
     (if ready ns r = [] then None
      else Some (ready ns r ! (rd_choice r mod length (ready ns r))))"

text \<open>
  One entry of the task's history: the branch taken, and for a regeneration the message
  handed to \<^verbatim>\<open>forwardToPeers\<close> and the duration the timer is reset to.
\<close>

datatype step = Regossip branch RawMessage int | Exit

fun updateAnnounce_loop ::
  "gossip \<Rightarrow> faults \<Rightarrow> round list \<Rightarrow> NetService \<Rightarrow> db \<Rightarrow> step list \<times> NetService \<times> db" where
  "updateAnnounce_loop lib f [] ns d = ([], ns, d)"
| "updateAnnounce_loop lib f (r # rs) ns d =
     (if stopping ns \<or> rd_stop r then ([], ns\<lparr>stopping := True\<rparr>, d)
      else
        (case select ns r of
           None \<Rightarrow> updateAnnounce_loop lib f rs ns d
         | Some (AddrChange newMsg) \<Rightarrow>
             (case generateAnnounce lib f (rd_now r) newMsg (ns\<lparr>nextAnnounce := newMsg\<rparr>) d of
                (msg, remain, d1) \<Rightarrow>
                  (case updateAnnounce_loop lib f rs
                          (setAnnounce msg (ns\<lparr>nextAnnounce := newMsg\<rparr>)) d1 of
                     (steps, ns', d') \<Rightarrow> (Regossip (AddrChange newMsg) msg remain # steps, ns', d')))
         | Some TimerFired \<Rightarrow>
             (case generateAnnounce lib f (rd_now r) (nextAnnounce ns) ns d of
                (msg, remain, d1) \<Rightarrow>
                  (case updateAnnounce_loop lib f rs (setAnnounce msg ns) d1 of
                     (steps, ns', d') \<Rightarrow> (Regossip TimerFired msg remain # steps, ns', d')))
         | Some ContextDone \<Rightarrow> ([Exit], ns, d)))"

definition updateAnnounce ::
  "gossip \<Rightarrow> faults \<Rightarrow> int \<Rightarrow> int \<Rightarrow> round list \<Rightarrow> NetService \<Rightarrow> db \<Rightarrow> step list \<times> NetService \<times> db" where
  "updateAnnounce lib f now now' rounds ns d =
     (case loadOrGenerateAnnounce lib f now now' ns d of
        (msg, remain, d1) \<Rightarrow> updateAnnounce_loop lib f rounds (setAnnounce msg ns) d1)"

text \<open>
  A step that the \<^verbatim>\<open>addrChange\<close> branch did not cause: the exit, or a regeneration
  triggered by the timer.
\<close>

definition timer_driven :: "step \<Rightarrow> bool" where
  "timer_driven s = (case s of Exit \<Rightarrow> True | Regossip b msg remain \<Rightarrow> b = TimerFired)"

section \<open>Accepting connections (internal/netsvc/service.go)\<close>

text \<open>\<^verbatim>\<open>trackHandler\<close> (lines 466-477).\<close>

definition trackHandler :: "conn \<Rightarrow> handlerRef \<Rightarrow> NetService \<Rightarrow> bool \<times> NetService" where
  "trackHandler c hand ns =
     (if stopping ns then (False, ns)
      else (True, ns\<lparr>connections := connections ns @ [c], handlers := handlers ns @ [hand]\<rparr>))"

text \<open>
  How an accept task ends: it returns, or it takes the whole process down
  (\<^verbatim>\<open>log.Fatal\<close> prints and calls \<^verbatim>\<open>os.Exit(1)\<close>), or it is still waiting in \<^verbatim>\<open>Accept\<close>
  when the observation ends.
\<close>

datatype task_end = TaskReturned | ProcessExit int | Waiting

text \<open>
  One round of an accept loop: whether the governor has stopped the service by the time
  of the loop test, and what \<^verbatim>\<open>Accept\<close> returns: a connection together with the session
  object made for it, or an error (\<^verbatim>\<open>None\<close>), as it does once \<^verbatim>\<open>Stop\<close> has closed
  the socket.
\<close>

record accept_round =
  ar_stop :: bool
  ar_accept :: "(conn \<times> nat) option"

text \<open>The loop of \<^verbatim>\<open>acceptHandlers\<close> (lines 158-172).\<close>

fun acceptHandlers_loop :: "accept_round list \<Rightarrow> NetService \<Rightarrow> task_end \<times> NetService" where
  "acceptHandlers_loop [] ns = (Waiting, ns)"
| "acceptHandlers_loop (r # rs) ns =
     (if stopping ns \<or> ar_stop r then (TaskReturned, ns\<lparr>stopping := True\<rparr>)
      else
        (case ar_accept r of
           None \<Rightarrow> (ProcessExit 1, ns)
         | Some (c, hand) \<Rightarrow>
             (case trackHandler c hand ns of
                (True, ns1) \<Rightarrow> acceptHandlers_loop rs ns1
              | (False, ns1) \<Rightarrow> (TaskReturned, ns1))))"


text \<open>
  \<^verbatim>\<open>acceptHandlers\<close> (lines 149-173): \<^verbatim>\<open>listen_ok\<close> says whether \<^verbatim>\<open>net.Listen\<close> on the
  unix socket succeeded.
\<close>

definition acceptHandlers :: "bool \<Rightarrow> accept_round list \<Rightarrow> NetService \<Rightarrow> task_end \<times> NetService" where
  "acceptHandlers listen_ok rounds ns =
     (if listen_ok then acceptHandlers_loop rounds ns else (TaskReturned, ns))"

text \<open>
  \<^verbatim>\<open>acceptIncoming\<close> (lines 122-146), the same loop for a TCP listener. It has no loop
  test of its own; \<^verbatim>\<open>trackPeer\<close> sees the stop.
\<close>

fun acceptIncoming :: "accept_round list \<Rightarrow> NetService \<Rightarrow> task_end \<times> NetService" where
  "acceptIncoming [] ns = (Waiting, ns)"
| "acceptIncoming (r # rs) ns =
     (case ar_accept r of
        None \<Rightarrow> (TaskReturned, ns\<lparr>stopping := (stopping ns \<or> ar_stop r)\<rparr>)
      | Some (c, peer) \<Rightarrow>
          (case trackPeer c peer NoPubKey (ns\<lparr>stopping := (stopping ns \<or> ar_stop r)\<rparr>) of
             (True, ns1) \<Rightarrow> acceptIncoming rs ns1
           | (False, ns1) \<Rightarrow> (TaskReturned, ns1)))"


section \<open>The expiry bound of overlay nodes\<close>

text \<open>
  Every write of \<^verbatim>\<open>node.dayc\<close> in the store stores 30 plus the day counter of that
  moment, and the counter only grows: no overlay node expires more than 30 days after
  the current counter. A database without a \<^verbatim>\<open>config\<close> row has no overlay node yet.
\<close>

definition node_expiry_bounded :: "db \<Rightarrow> bool" where
  "node_expiry_bounded d =
     (case config_dayc d of
        None \<Rightarrow> node d = []
      | Some dayc \<Rightarrow> list_all (\<lambda>r. node_dayc r \<le> 30 + dayc) (node d))"


section \<open>Example values\<close>

text \<open>A service as \<^verbatim>\<open>New\<close> builds it, for public address 203.0.113.5:42069.\<close>

definition example_ns :: NetService where
  "example_ns = New 1 [\<lparr>Host = [0, 0, 0, 0], Port = 42069\<rparr>] \<lparr>Host = [203, 0, 113, 5], Port = 42069\<rparr>
     (replicate 32 9) \<lparr>Priv = replicate 64 3, Pub = replicate 32 4\<rparr> False"


text \<open>An engine that never fails.\<close>

definition no_faults :: faults where
  "no_faults = (\<lambda>n. False)"

text \<open>
  Day rollover: day counter 5, last advanced on calendar day 1000; one core row, one
  overlay node and one channel expire with day 5, the others later.
\<close>

definition day5 :: db where
  "day5 =
     \<lparr>config = [(5, 1000)],
      announce = [],
      channels = [(1, 5), (2, 12)],
      core = [\<lparr>core_address = [1], core_time = 0, core_services = 0, core_isnew = True, core_dayc = 5\<rparr>,
              \<lparr>core_address = [2], core_time = 0, core_services = 0, core_isnew = False, core_dayc = 6\<rparr>],
      node = [\<lparr>node_oid = 1, node_key = [7], node_address = [1], node_time = 0, node_owner = [],
               node_payload = [1, 2], node_sig = [], node_dayc = 5\<rparr>,
              \<lparr>node_oid = 2, node_key = [8], node_address = [2], node_time = 0, node_owner = [],
               node_payload = [3], node_sig = [], node_dayc = 35\<rparr>],
      chan = [(1, ''chat''), (2, ''chat'')]\<rparr>"

definition day6 :: db where
  "day6 =
     \<lparr>config = [(6, 1001)],
      announce = [],
      channels = [(2, 12)],
      core = [\<lparr>core_address = [2], core_time = 0, core_services = 0, core_isnew = False, core_dayc = 6\<rparr>],
      node = [\<lparr>node_oid = 2, node_key = [8], node_address = [2], node_time = 0, node_owner = [],
               node_payload = [3], node_sig = [], node_dayc = 35\<rparr>],
      chan = [(1, ''chat''), (2, ''chat'')]\<rparr>"

text \<open>The same day with no channel subscription about to expire, and two expiring overlay nodes.\<close>

definition two_nodes :: db where
  "two_nodes =
     \<lparr>config = [(5, 1000)],
      announce = [],
      channels = [],
      core = [],
      node = [\<lparr>node_oid = 1, node_key = [7], node_address = [1], node_time = 0, node_owner = [],
               node_payload = [1, 2], node_sig = [], node_dayc = 5\<rparr>,
              \<lparr>node_oid = 2, node_key = [8], node_address = [2], node_time = 0, node_owner = [],
               node_payload = [3], node_sig = [], node_dayc = 5\<rparr>],
      chan = []\<rparr>"


text \<open>A stand-in for \<^verbatim>\<open>Tag4CC.String\<close>.\<close>

definition tag_name :: "Tag4CC \<Rightarrow> string" where
  "tag_name c = (if c = 1 then ''chat'' else ''news'')"


text \<open>
  A stand-in for the gossip library: a message encodes as its time byte followed by the
  owner key; signatures are 64 bytes.
\<close>

definition plain_lib :: gossip where
  "plain_lib =
     \<lparr>Encode = (\<lambda>m. word_of_int (am_Time m) # am_Owner m),
      DecodeAddrMsg = (\<lambda>p. \<lparr>am_Time = (case p of [] \<Rightarrow> 0 | b # bs \<Rightarrow> uint b), am_Address = [],
                              am_Port = 0, am_Owner = drop 1 p, am_Channels = [], am_Services = []\<rparr>),
      AddrMsgMinSize = 1,
      EncodeMessage = (\<lambda>k p. Pub k @ p),
      ReEncodeMessage = (\<lambda>pub sg p. pub @ sg),
      MsgSignature = (\<lambda>msg. replicate 64 1),
      MsgHeader = (\<lambda>msg. take 32 msg),
      UnixToDoge = (\<lambda>t. t - 800)\<rparr>"

text \<open>
  A store holding an announcement of example_ns made at time 5 that expires at second
  1000: with a signature of 64 bytes, and with one of 63 bytes.
\<close>

definition stored_ok :: db where
  "stored_ok = empty_db\<lparr>config := [(5, 1000)], announce := [(5 # replicate 32 9, replicate 64 2, 1000)]\<rparr>"

definition stored_short_sig :: db where
  "stored_short_sig = empty_db\<lparr>config := [(5, 1000)], announce := [(5 # replicate 32 9, replicate 63 2, 1000)]\<rparr>"

section \<open>Identity uniqueness\<close>

lemma trackPeer_keeps_incumbent:
  "connectedPeers ns k = Some p \<Longrightarrow> connectedPeers (snd (trackPeer c peer key ns)) k = Some p"
  by (auto simp: trackPeer_def Let_def split: option.splits)

lemma adoptPeer_keeps_incumbent:
  "connectedPeers ns k = Some p \<Longrightarrow> connectedPeers (snd (adoptPeer peer key ns)) k = Some p"
  by (auto simp: adoptPeer_def split: option.splits)

lemma trackPeer_known_key:
  "connectedPeers ns k = Some p \<Longrightarrow>
     trackPeer c peer k ns =
       (if stopping ns then (False, ns)
        else (k = NoPubKey, ns\<lparr>connections := connections ns @ [c]\<rparr>))"
  by (simp add: trackPeer_def Let_def)

text \<open>
  C1, as amended. For every key \<^verbatim>\<open>k\<close> with an incumbent session \<^verbatim>\<open>p\<close>:
  \<^verbatim>\<open>adoptPeer\<close> for \<^verbatim>\<open>k\<close> returns false and changes nothing; \<^verbatim>\<open>trackPeer\<close> for \<^verbatim>\<open>k\<close>
  returns false when \<^verbatim>\<open>k\<close> is not the zero key \<^verbatim>\<open>NoPubKey\<close>, and leaves the peer table
  as it was whatever \<^verbatim>\<open>k\<close> is; and no call of either primitive, with any arguments,
  replaces or removes the incumbent of \<^verbatim>\<open>k\<close>. The table is a map, so it never holds
  two sessions for one key.
\<close>

theorem C1_identity_uniqueness:
  assumes "connectedPeers ns k = Some p"
  shows "adoptPeer peer k ns = (False, ns)
       \<and> (k \<noteq> NoPubKey \<longrightarrow> fst (trackPeer c peer k ns) = False)
       \<and> connectedPeers (snd (trackPeer c peer k ns)) = connectedPeers ns
       \<and> connectedPeers (snd (trackPeer c' peer' k' ns)) k = Some p
       \<and> connectedPeers (snd (adoptPeer peer' k' ns)) k = Some p"
proof -
  have "adoptPeer peer k ns = (False, ns)"
    using assms by (simp add: adoptPeer_def)
  moreover have "k \<noteq> NoPubKey \<longrightarrow> fst (trackPeer c peer k ns) = False"
    using assms by (simp add: trackPeer_known_key)
  moreover have "connectedPeers (snd (trackPeer c peer k ns)) = connectedPeers ns"
    using assms by (simp add: trackPeer_known_key)
  ultimately show ?thesis
    using assms trackPeer_keeps_incumbent adoptPeer_keeps_incumbent by blast
qed

text \<open>
  The incumbent is session 1 under the key of thirty-two bytes 7; session 2 then asks
  for the same key through both primitives.
\<close>

theorem C1_identity_uniqueness_witness:
  "adoptPeer 2 (replicate 32 7) (example_ns\<lparr>connectedPeers := [replicate 32 7 \<mapsto> 1]\<rparr>)
     = (False, example_ns\<lparr>connectedPeers := [replicate 32 7 \<mapsto> 1]\<rparr>)
   \<and> fst (trackPeer 11 2 (replicate 32 7)
            (example_ns\<lparr>connectedPeers := [replicate 32 7 \<mapsto> 1]\<rparr>)) = False
   \<and> connectedPeers (snd (trackPeer 11 2 (replicate 32 7)
            (example_ns\<lparr>connectedPeers := [replicate 32 7 \<mapsto> 1]\<rparr>))) (replicate 32 7) = Some 1"
proof -
  let ?ns = "example_ns\<lparr>connectedPeers := [replicate 32 (7::byte) \<mapsto> (1::nat)]\<rparr>"
  have inc: "connectedPeers ?ns (replicate 32 7) = Some 1" by simp
  have ne: "replicate 32 (7::byte) \<noteq> NoPubKey"
    by (simp add: NoPubKey_def replicate_eq_replicate)
  from C1_identity_uniqueness [OF inc, of 2 11 11 2 "replicate 32 7"] ne
  show ?thesis by simp
qed

text \<open>
  The claim as written fails at the zero key: once a session has been adopted under
  \<^verbatim>\<open>NoPubKey\<close>, \<^verbatim>\<open>trackPeer\<close> with \<^verbatim>\<open>NoPubKey\<close> (every inbound connection) still
  returns true.
\<close>

theorem C1_trackPeer_zero_key_counterexample:
  "connectedPeers (snd (adoptPeer 1 NoPubKey example_ns)) NoPubKey = Some 1
   \<and> fst (trackPeer 11 2 NoPubKey (snd (adoptPeer 1 NoPubKey example_ns))) = True"
  by (simp add: adoptPeer_def trackPeer_def example_ns_def New_def)

section \<open>The day counter\<close>

lemma int64_id: "- (2 ^ 63) \<le> x \<Longrightarrow> x < 2 ^ 63 \<Longrightarrow> int64 x = x"
  unfolding int64_def
  by (simp add: signed_take_bit_int_eq_self sint_sbintrunc' flip: signed_of_int)

lemma TrimNodes_rollback:
  "TrimNodes f now d = (r, Some e, d') \<Longrightarrow> d' = d"
  by (auto simp: TrimNodes_def doTxn_def split: if_splits prod.splits option.splits)

text \<open>
  C2. Let the first \<^verbatim>\<open>config\<close> row hold \<^verbatim>\<open>(dayc, lst)\<close>. If \<^verbatim>\<open>lst\<close> is today's day
  stamp, \<^verbatim>\<open>TrimNodes\<close> reports \<^verbatim>\<open>advanced = false\<close>, zero removals and leaves every
  table as it was. If the day has changed and the call succeeds, \<^verbatim>\<open>advanced\<close> is true,
  \<^verbatim>\<open>config\<close> holds \<^verbatim>\<open>dayc + 1\<close> (as an \<^verbatim>\<open>int64\<close>) and today's stamp, and \<^verbatim>\<open>core\<close>,
  \<^verbatim>\<open>node\<close> and \<^verbatim>\<open>channels\<close> have lost exactly the rows whose day count is below the new
  counter, nothing else having changed. It is one transaction: a call that returns an
  error leaves every table as it was.
\<close>

theorem C2_trimNodes_day_counter:
  assumes cfg: "config d = (dayc, lst) # rest"
      and res: "TrimNodes f now d = ((advanced, remCore, remNode), err, d')"
  shows "(lst = unixDayStamp now \<longrightarrow> \<not> advanced \<and> remCore = 0 \<and> remNode = 0 \<and> d' = d)
       \<and> (err \<noteq> None \<longrightarrow> d' = d)
       \<and> (lst \<noteq> unixDayStamp now \<and> err = None \<longrightarrow>
            advanced
          \<and> config d' = map (\<lambda>row. (int64 (dayc + 1), unixDayStamp now)) (config d)
          \<and> core d' = filter (\<lambda>r. \<not> core_dayc r < int64 (dayc + 1)) (core d)
          \<and> node d' = filter (\<lambda>r. \<not> node_dayc r < int64 (dayc + 1)) (node d)
          \<and> channels d' = filter (\<lambda>(c, n). \<not> n < int64 (dayc + 1)) (channels d)
          \<and> announce d' = announce d \<and> chan d' = chan d)
       \<and> (- (2 ^ 63) \<le> dayc \<and> dayc < 2 ^ 63 - 1 \<longrightarrow> int64 (dayc + 1) = dayc + 1)"
proof -
  have "lst = unixDayStamp now \<longrightarrow> \<not> advanced \<and> remCore = 0 \<and> remNode = 0 \<and> d' = d"
    using res cfg
    by (auto simp: TrimNodes_def doTxn_def TrimNodes_work_def Let_def split: if_splits)
  moreover have "err \<noteq> None \<longrightarrow> d' = d"
    using res TrimNodes_rollback by blast
  moreover have "lst \<noteq> unixDayStamp now \<and> err = None \<longrightarrow>
            advanced
          \<and> config d' = map (\<lambda>row. (int64 (dayc + 1), unixDayStamp now)) (config d)
          \<and> core d' = filter (\<lambda>r. \<not> core_dayc r < int64 (dayc + 1)) (core d)
          \<and> node d' = filter (\<lambda>r. \<not> node_dayc r < int64 (dayc + 1)) (node d)
          \<and> channels d' = filter (\<lambda>(c, n). \<not> n < int64 (dayc + 1)) (channels d)
          \<and> announce d' = announce d \<and> chan d' = chan d"
    using res cfg
    by (auto simp: TrimNodes_def doTxn_def TrimNodes_work_def Let_def split: if_splits)
  moreover have "- (2 ^ 63) \<le> dayc \<and> dayc < 2 ^ 63 - 1 \<longrightarrow> int64 (dayc + 1) = dayc + 1"
    by (simp add: int64_id)
  ultimately show ?thesis by blast
qed

lemma TrimNodes_day5:
  "TrimNodes no_faults (1001 * 86400 + 17) day5 = ((True, 1, 1), None, day6)"
  by (simp add: TrimNodes_def doTxn_def TrimNodes_work_def Let_def day5_def day6_def no_faults_def
        unixDayStamp_def SecondsPerDay_def signed_divide_int_def int64_id)

lemma TrimNodes_day6:
  "TrimNodes no_faults (1001 * 86400 + 17) day6 = ((False, 0, 0), None, day6)"
  by (simp add: TrimNodes_def doTxn_def TrimNodes_work_def Let_def day6_def no_faults_def
        unixDayStamp_def SecondsPerDay_def signed_divide_int_def)

text \<open>
  The rollover of the day from 1000 to 1001 at counter 5, and a second call on the
  same day.
\<close>

theorem C2_trimNodes_day_counter_witness:
  "TrimNodes no_faults (1001 * 86400 + 17) day5 = ((True, 1, 1), None, day6)
   \<and> config day6 = [(6, 1001)]
   \<and> core day6 = filter (\<lambda>r. \<not> core_dayc r < 6) (core day5)
   \<and> node day6 = filter (\<lambda>r. \<not> node_dayc r < 6) (node day5)
   \<and> channels day6 = filter (\<lambda>(c, n). \<not> n < 6) (channels day5)
   \<and> TrimNodes no_faults (1001 * 86400 + 17) day6 = ((False, 0, 0), None, day6)"
proof -
  have cfg5: "config day5 = (5, 1000) # []" by (simp add: day5_def)
  have cfg6: "config day6 = (6, 1001) # []" by (simp add: day6_def)
  have today: "unixDayStamp (1001 * 86400 + 17) = 1001"
    by (simp add: unixDayStamp_def SecondsPerDay_def signed_divide_int_def)
  have six: "int64 (5 + 1) = 6" by (simp add: int64_id)
  from C2_trimNodes_day_counter [OF cfg5 TrimNodes_day5]
       C2_trimNodes_day_counter [OF cfg6 TrimNodes_day6]
  show ?thesis
    using TrimNodes_day5 TrimNodes_day6 cfg5 today six by simp
qed

text \<open>
  C6 at a failing input: with two expired overlay nodes and no expired channel
  subscription, two rows leave the \<^verbatim>\<open>node\<close> table and the returned \<^verbatim>\<open>remNode\<close> is 0,
  the number of rows that left \<^verbatim>\<open>channels\<close> (the last assignment to \<^verbatim>\<open>remNode\<close>, line
  390, overwrites the count of line 380).
\<close>

theorem C6_remNode_counts_channels:
  "TrimNodes no_faults (1001 * 86400) two_nodes
     = ((True, 0, 0), None, two_nodes\<lparr>config := [(6, 1001)], node := []\<rparr>)
   \<and> length (node two_nodes) = 2"
  by (simp add: TrimNodes_def doTxn_def TrimNodes_work_def Let_def two_nodes_def no_faults_def
        unixDayStamp_def SecondsPerDay_def signed_divide_int_def int64_id)

text \<open>
  What the counts are in general: \<^verbatim>\<open>remCore\<close> is the number of rows deleted from
  \<^verbatim>\<open>core\<close>, \<^verbatim>\<open>remNode\<close> the number of rows deleted from \<^verbatim>\<open>channels\<close>.
\<close>

lemma TrimNodes_counts:
  assumes "TrimNodes f now d = ((True, remCore, remNode), None, d')"
  shows "remCore = int (length (core d)) - int (length (core d'))
       \<and> remNode = int (length (channels d)) - int (length (channels d'))"
proof -
  have len: "int (length (filter P xs))
                = int (length xs) - int (length (filter (\<lambda>x. \<not> P x) xs))" for P and xs :: "'a list"
    using sum_length_filter_compl [of P xs] by linarith
  have split_neg: "filter (\<lambda>x. \<not> (case x of (c, n) \<Rightarrow> n < k)) xs = filter (\<lambda>(c, n). \<not> n < k) xs"
    for k and xs :: "(Tag4CC \<times> int) list"
    by (rule filter_cong) auto
  obtain dayc lst rest where cfg: "config d = (dayc, lst) # rest"
    using assms
    by (cases "config d") (auto simp: TrimNodes_def doTxn_def TrimNodes_work_def split: if_splits)
  have "remCore = int (length (filter (\<lambda>r. core_dayc r < int64 (dayc + 1)) (core d)))
      \<and> remNode = int (length (filter (\<lambda>(c, n). n < int64 (dayc + 1)) (channels d)))
      \<and> core d' = filter (\<lambda>r. \<not> core_dayc r < int64 (dayc + 1)) (core d)
      \<and> channels d' = filter (\<lambda>(c, n). \<not> n < int64 (dayc + 1)) (channels d)"
    using assms cfg
    by (auto simp: TrimNodes_def doTxn_def TrimNodes_work_def Let_def split: if_splits)
  then show ?thesis
    using len [of "\<lambda>r. core_dayc r < int64 (dayc + 1)" "core d"]
          len [of "\<lambda>(c, n). n < int64 (dayc + 1)" "channels d"]
    by (simp add: split_neg)
qed

section \<open>Transactions and upserts\<close>

lemma doTxn_success:
  "doTxn f name z work d = (r, None, d') \<Longrightarrow> work d = (r, None, d')"
  by (auto simp: doTxn_def split: if_splits prod.splits option.splits)

lemma doTxn_failure:
  "doTxn f name z work d = (r, Some e, d') \<Longrightarrow> d' = d"
  by (auto simp: doTxn_def split: if_splits prod.splits option.splits)

lemma insert_channels_success:
  "insert_channels f tagString oid cs d = Inr d' \<Longrightarrow>
     d' = d\<lparr>chan := chan d @ map (\<lambda>c. (oid, tagString c)) cs\<rparr>"
proof (induction cs arbitrary: d)
  case Nil
  then show ?case by simp
next
  case (Cons c cs)
  from Cons.prems obtain d1 where
    one: "insert_chan oid (tagString c) d = Inr d1" and
    more: "insert_channels f tagString oid cs d1 = Inr d'"
    by (auto simp: exec_def split: if_splits sum.splits)
  from one have "d1 = d\<lparr>chan := chan d @ [(oid, tagString c)]\<rparr>"
    by (simp add: insert_chan_def split: if_splits)
  with Cons.IH [OF more] show ?case by simp
qed

lemma AddNetNode_channels_success:
  assumes "AddNetNode_channels f tagString oid cs d1 = (changed, None, d3)"
  shows "changed \<and> d3 = d1\<lparr>chan := filter (\<lambda>(n, c). n \<noteq> oid) (chan d1)
                                    @ map (\<lambda>c. (oid, tagString c)) cs\<rparr>"
proof -
  from assms obtain d' where
    ins: "insert_channels f tagString oid cs (delete_chan oid d1) = Inr d'" and
    res: "changed" "d3 = d'"
    by (auto simp: AddNetNode_channels_def Let_def split: if_splits sum.splits)
  from insert_channels_success [OF ins] res show ?thesis
    by (simp add: delete_chan_def)
qed

lemma AddNetNode_work_success:
  assumes "AddNetNode_work f ToBytes tagString key address tm owner chans payload sg d
             = (changed, None, d')"
  shows "case find (\<lambda>r. node_key r = key) (node d) of
           None \<Rightarrow>
             changed \<and> (\<exists>dayc. config_dayc d = Some dayc \<and>
               d' = d\<lparr>node := node d @
                         [\<lparr>node_oid = next_rowid d, node_key = key, node_address = ToBytes address,
                           node_time = tm, node_owner = owner, node_payload = payload,
                           node_sig = sg, node_dayc = 30 + dayc\<rparr>],
                       chan := filter (\<lambda>(n, c). n \<noteq> next_rowid d) (chan d)
                               @ map (\<lambda>c. (next_rowid d, tagString c)) chans\<rparr>)
         | Some r \<Rightarrow>
             if node_payload r = payload then \<not> changed \<and> d' = d
             else changed \<and> (\<exists>dayc. config_dayc d = Some dayc \<and>
               d' = d\<lparr>node := map (\<lambda>r. if node_key r = key
                                      then r\<lparr>node_address := ToBytes address, node_time := tm,
                                             node_owner := owner, node_payload := payload,
                                             node_sig := sg, node_dayc := 30 + dayc\<rparr>
                                      else r) (node d),
                       chan := filter (\<lambda>(n, c). n \<noteq> node_oid r) (chan d)
                               @ map (\<lambda>c. (node_oid r, tagString c)) chans\<rparr>)"
proof (cases "find (\<lambda>r. node_key r = key) (node d)")
  case None
  then have sel: "select_node key d = Inl ErrNoRows"
    by (simp add: select_node_def)
  from assms sel obtain oid d1 where
    ins: "insert_node key (ToBytes address) tm owner payload sg d = Inr (oid, d1)" and
    ch: "AddNetNode_channels f tagString oid chans d1 = (changed, None, d')"
    by (auto simp: AddNetNode_work_def exec_def split: if_splits sum.splits)
  from ins obtain dayc where
    cfg: "config_dayc d = Some dayc" and
    oid: "oid = next_rowid d" and
    d1: "d1 = d\<lparr>node := node d @
                   [\<lparr>node_oid = next_rowid d, node_key = key, node_address = ToBytes address,
                     node_time = tm, node_owner = owner, node_payload = payload,
                     node_sig = sg, node_dayc = 30 + dayc\<rparr>]\<rparr>"
    by (auto simp: insert_node_def split: option.splits if_splits)
  from AddNetNode_channels_success [OF ch] cfg oid d1 None show ?thesis
    by simp
next
  case (Some r)
  then have sel: "select_node key d = Inr (node_oid r, node_payload r)"
    by (simp add: select_node_def)
  show ?thesis
  proof (cases "node_payload r = payload")
    case True
    with assms sel Some show ?thesis
      by (auto simp: AddNetNode_work_def exec_def split: if_splits)
  next
    case False
    from assms sel False obtain d1 where
      upd: "update_node (ToBytes address) tm owner payload sg key d = Inr d1" and
      ch: "AddNetNode_channels f tagString (node_oid r) chans d1 = (changed, None, d')"
      by (auto simp: AddNetNode_work_def exec_def split: if_splits sum.splits)
    have hit: "filter (\<lambda>r. node_key r = key) (node d) \<noteq> []"
      using Some by (metis filter_empty_conv find_Some_iff nth_mem)
    from upd hit obtain dayc where
      cfg: "config_dayc d = Some dayc" and
      d1: "d1 = d\<lparr>node := map (\<lambda>r. if node_key r = key
                                      then r\<lparr>node_address := ToBytes address, node_time := tm,
                                             node_owner := owner, node_payload := payload,
                                             node_sig := sg, node_dayc := 30 + dayc\<rparr>
                                      else r) (node d)\<rparr>"
      by (auto simp: update_node_def split: option.splits if_splits)
    from AddNetNode_channels_success [OF ch] cfg d1 Some False show ?thesis
      by simp
  qed
qed

lemma AddCoreNode_work_of:
  assumes "AddCoreNode f ToBytes address unixTimeSec remainDays services d = (None, d')"
  shows "AddCoreNode_work f ToBytes address unixTimeSec remainDays services d = ((), None, d')"
proof -
  obtain r e d1 where t: "doTxn f ''AddCoreNode'' ()
            (AddCoreNode_work f ToBytes address unixTimeSec remainDays services) d = (r, e, d1)"
    by (metis prod_cases3)
  with assms have "e = None" "d1 = d'" by (simp_all add: AddCoreNode_def)
  with t doTxn_success show ?thesis by fastforce
qed

lemma AddCoreNode_success:
  assumes "AddCoreNode f ToBytes address unixTimeSec remainDays services d = (None, d')"
  shows "\<exists>dayc. config_dayc d = Some dayc
      \<and> (if filter (\<lambda>r. core_address r = ToBytes address) (core d) = []
          then d' = d\<lparr>core := core d @ [\<lparr>core_address = ToBytes address, core_time = unixTimeSec,
                   core_services = services, core_isnew = True, core_dayc = remainDays + dayc\<rparr>]\<rparr>
          else d' = d\<lparr>core := map (\<lambda>r. if core_address r = ToBytes address
                          then r\<lparr>core_time := unixTimeSec, core_services := services,
                                 core_dayc := max (core_dayc r) (remainDays + dayc)\<rparr>
                          else r) (core d)\<rparr>)"
proof (cases "filter (\<lambda>r. core_address r = ToBytes address) (core d) = []")
  case True
  then have u: "update_core unixTimeSec services remainDays (ToBytes address) d = Inr (0, d)"
    by (simp add: update_core_def)
  show ?thesis
    using AddCoreNode_work_of [OF assms] True
    by (simp add: AddCoreNode_work_def exec_def u insert_core_def Let_def
             split: if_splits option.splits)
next
  case False
  show ?thesis
  proof (cases "config_dayc d")
    case None
    then have u: "update_core unixTimeSec services remainDays (ToBytes address) d = Inl ErrConstraint"
      using False by (simp add: update_core_def)
    show ?thesis
      using AddCoreNode_work_of [OF assms]
      by (simp add: AddCoreNode_work_def exec_def u Let_def split: if_splits)
  next
    case (Some dayc)
    then have u: "update_core unixTimeSec services remainDays (ToBytes address) d =
       Inr (int (length (filter (\<lambda>r. core_address r = ToBytes address) (core d))),
                  d\<lparr>core := map (\<lambda>r. if core_address r = ToBytes address
                                      then r\<lparr>core_time := unixTimeSec, core_services := services,
                                             core_dayc := max (core_dayc r) (remainDays + dayc)\<rparr>
                                      else r) (core d)\<rparr>)"
      using False by (simp add: update_core_def)
    show ?thesis
      using AddCoreNode_work_of [OF assms] False Some
      by (simp add: AddCoreNode_work_def exec_def u Let_def split: if_splits)
  qed
qed

section \<open>The expiry bound is an invariant of the store\<close>

lemma TrimNodes_same_day:
  assumes "config d = (dayc, lst) # rest" and "lst = unixDayStamp now"
      and "TrimNodes f now d = (r, err, d')"
  shows "r = (False, 0, 0) \<and> d' = d"
  using assms
  by (auto simp: TrimNodes_def doTxn_def TrimNodes_work_def Let_def split: if_splits)

lemma TrimNodes_new_day:
  assumes "config d = (dayc, lst) # rest" and "lst \<noteq> unixDayStamp now"
      and "TrimNodes f now d = (r, None, d')"
  shows "fst r
       \<and> d' = d\<lparr>config := map (\<lambda>row. (int64 (dayc + 1), unixDayStamp now)) (config d),
                 core := filter (\<lambda>r. \<not> core_dayc r < int64 (dayc + 1)) (core d),
                 node := filter (\<lambda>r. \<not> node_dayc r < int64 (dayc + 1)) (node d),
                 channels := filter (\<lambda>(c, n). \<not> n < int64 (dayc + 1)) (channels d)\<rparr>"
  using assms
  by (auto simp: TrimNodes_def doTxn_def TrimNodes_work_def Let_def split: if_splits)

lemma AddNetNode_work_of:
  assumes "AddNetNode f ToBytes tagString key address tm owner chans payload sg d = (changed, None, d')"
  shows "AddNetNode_work f ToBytes tagString key address tm owner chans payload sg d = (changed, None, d')"
  using assms unfolding AddNetNode_def by (rule doTxn_success)

lemma node_expiry_bounded_empty: "node_expiry_bounded empty_db"
  by (simp add: node_expiry_bounded_def empty_db_def config_dayc_def)

lemma node_expiry_bounded_cong:
  "config d' = config d \<Longrightarrow> node d' = node d \<Longrightarrow>
     node_expiry_bounded d' = node_expiry_bounded d"
  by (simp add: node_expiry_bounded_def config_dayc_def cong: option.case_cong)

lemma initConfig_keeps_bound:
  assumes "node_expiry_bounded d" shows "node_expiry_bounded (snd (initConfig f now d))"
  using assms
  by (auto simp: initConfig_def doTxn_def initConfig_work_def node_expiry_bounded_def
        config_dayc_def split: list.splits if_splits)

lemma TrimNodes_keeps_bound:
  assumes "node_expiry_bounded d"
      and "config d = (dayc, lst) # rest" and "- (2 ^ 63) \<le> dayc" and "dayc < 2 ^ 63 - 1"
      and "TrimNodes f now d = (r, err, d')"
  shows "node_expiry_bounded d'"
proof (cases err)
  case (Some e)
  with assms TrimNodes_rollback show ?thesis by blast
next
  case None
  show ?thesis
  proof (cases "lst = unixDayStamp now")
    case True
    with TrimNodes_same_day [OF assms(2) _ assms(5)] assms(1)
    show ?thesis by simp
  next
    case False
    have i: "int64 (dayc + 1) = dayc + 1" using assms(3,4) by (simp add: int64_id)
    from assms(5) None have t: "TrimNodes f now d = (r, None, d')" by simp
    from TrimNodes_new_day [OF assms(2) False t]
    have c: "config d' = map (\<lambda>row. (dayc + 1, unixDayStamp now)) (config d)"
      and n: "node d' = filter (\<lambda>r. \<not> node_dayc r < dayc + 1) (node d)"
      by (simp_all add: i)
    from assms(1,2) have "list_all (\<lambda>r. node_dayc r \<le> 30 + dayc) (node d)"
      by (simp add: node_expiry_bounded_def config_dayc_def)
    then have "list_all (\<lambda>r. node_dayc r \<le> 30 + (dayc + 1)) (node d')"
      unfolding n by (auto simp: list_all_iff)
    with c assms(2) show ?thesis
      by (simp add: node_expiry_bounded_def config_dayc_def)
  qed
qed

lemma AddCoreNode_keeps_bound:
  assumes "node_expiry_bounded d"
  shows "node_expiry_bounded (snd (AddCoreNode f ToBytes address unixTimeSec remainDays services d))"
proof (cases "fst (AddCoreNode f ToBytes address unixTimeSec remainDays services d)")
  case None
  then have "AddCoreNode f ToBytes address unixTimeSec remainDays services d
               = (None, snd (AddCoreNode f ToBytes address unixTimeSec remainDays services d))"
    by (metis prod.collapse)
  from AddCoreNode_success [OF this] assms show ?thesis
    by (auto simp: node_expiry_bounded_def config_dayc_def split: if_splits)
next
  case (Some e)
  obtain r e' d1 where t: "doTxn f ''AddCoreNode'' ()
            (AddCoreNode_work f ToBytes address unixTimeSec remainDays services) d = (r, e', d1)"
    by (metis prod_cases3)
  with Some have "e' = Some e" by (simp add: AddCoreNode_def)
  with t doTxn_failure have "d1 = d" by fastforce
  with t assms show ?thesis by (simp add: AddCoreNode_def)
qed

lemma AddNetNode_rollback:
  "AddNetNode f ToBytes tagString key address tm owner chans payload sg d = (changed, Some e, d')
     \<Longrightarrow> d' = d"
  unfolding AddNetNode_def by (rule doTxn_failure)

lemma find_in_filter:
  "find P xs = Some r \<Longrightarrow> filter P xs \<noteq> []"
  by (metis filter_empty_conv find_Some_iff nth_mem)

lemma AddNetNode_keeps_bound:
  assumes "node_expiry_bounded d"
      and "AddNetNode f ToBytes tagString key address tm owner chans payload sg d = (changed, err, d')"
  shows "node_expiry_bounded d'"
proof (cases err)
  case (Some e)
  with assms(2) have "AddNetNode f ToBytes tagString key address tm owner chans payload sg d
      = (changed, Some e, d')" by simp
  then have "d' = d" by (rule AddNetNode_rollback)
  with assms(1) show ?thesis by simp
next
  case None
  with assms(2) have w: "AddNetNode_work f ToBytes tagString key address tm owner chans payload sg d
             = (changed, None, d')"
    by (simp add: AddNetNode_work_of)
  show ?thesis
  proof (cases "find (\<lambda>r. node_key r = key) (node d)")
    case None
    with AddNetNode_work_success [OF w] assms(1) show ?thesis
      by (auto simp: node_expiry_bounded_def config_dayc_def list_all_iff)
  next
    case (Some r)
    with AddNetNode_work_success [OF w] assms(1) show ?thesis
      by (auto simp: node_expiry_bounded_def config_dayc_def list_all_iff split: if_splits)
  qed
qed

lemma UpdateNetTime_keeps_bound:
  assumes "node_expiry_bounded d"
  shows "node_expiry_bounded (snd (UpdateNetTime f key d))"
proof (cases "exec f 587 (update_node_dayc key d)")
  case (Inl e)
  then show ?thesis
    using assms by (simp add: UpdateNetTime_def doTxn_def UpdateNetTime_work_def)
next
  case (Inr d1)
  then have "f 587 = False" and u: "update_node_dayc key d = Inr d1"
    by (auto simp: exec_def split: if_splits)
  from u assms have "node_expiry_bounded d1"
    by (auto simp: update_node_dayc_def node_expiry_bounded_def config_dayc_def list_all_iff
             split: option.splits if_splits list.splits)
  with Inr assms show ?thesis
    by (simp add: UpdateNetTime_def doTxn_def UpdateNetTime_work_def)
qed

lemma SetAnnounce_tables:
  "config (snd (SetAnnounce f payload sg tm d)) = config d
   \<and> node (snd (SetAnnounce f payload sg tm d)) = node d"
  by (simp add: SetAnnounce_def doTxn_def SetAnnounce_work_def Let_def)

lemma SetAnnounce_keeps_bound:
  assumes "node_expiry_bounded d"
  shows "node_expiry_bounded (snd (SetAnnounce f payload sg tm d))"
  using assms SetAnnounce_tables node_expiry_bounded_cong by blast

section \<open>Expiry never moves backwards\<close>

lemma AddCoreNode_rows:
  assumes "AddCoreNode f ToBytes address unixTimeSec remainDays services d = (None, d')"
  shows "\<exists>dayc. config_dayc d = Some dayc \<and> length (core d) \<le> length (core d')
      \<and> (\<forall>i < length (core d).
            core_address (core d' ! i) = core_address (core d ! i)
          \<and> core_dayc (core d ! i) \<le> core_dayc (core d' ! i)
          \<and> core_dayc (core d' ! i) =
              (if core_address (core d ! i) = ToBytes address
               then max (core_dayc (core d ! i)) (remainDays + dayc)
               else core_dayc (core d ! i)))"
proof -
  from AddCoreNode_success [OF assms] obtain dayc where
    cfg: "config_dayc d = Some dayc" and
    d': "if filter (\<lambda>r. core_address r = ToBytes address) (core d) = []
          then d' = d\<lparr>core := core d @ [\<lparr>core_address = ToBytes address, core_time = unixTimeSec,
                   core_services = services, core_isnew = True, core_dayc = remainDays + dayc\<rparr>]\<rparr>
          else d' = d\<lparr>core := map (\<lambda>r. if core_address r = ToBytes address
                          then r\<lparr>core_time := unixTimeSec, core_services := services,
                                 core_dayc := max (core_dayc r) (remainDays + dayc)\<rparr>
                          else r) (core d)\<rparr>"
    by blast
  show ?thesis
  proof (cases "filter (\<lambda>r. core_address r = ToBytes address) (core d) = []")
    case True
    then have no: "\<And>i. i < length (core d) \<Longrightarrow> core_address (core d ! i) \<noteq> ToBytes address"
      by (simp add: filter_empty_conv)
    from True d' have "core d' = core d @ [\<lparr>core_address = ToBytes address, core_time = unixTimeSec,
                   core_services = services, core_isnew = True, core_dayc = remainDays + dayc\<rparr>]"
      by simp
    with cfg no show ?thesis by (simp add: nth_append)
  next
    case False
    with d' have "core d' = map (\<lambda>r. if core_address r = ToBytes address
                          then r\<lparr>core_time := unixTimeSec, core_services := services,
                                 core_dayc := max (core_dayc r) (remainDays + dayc)\<rparr>
                          else r) (core d)"
      by simp
    with cfg show ?thesis by simp
  qed
qed

lemma AddNetNode_rows:
  assumes b: "node_expiry_bounded d"
      and r: "AddNetNode f ToBytes tagString key address tm owner chans payload sg d = (changed, None, d')"
  shows "length (node d) \<le> length (node d')
      \<and> (\<forall>i < length (node d).
            node_key (node d' ! i) = node_key (node d ! i)
          \<and> node_dayc (node d ! i) \<le> node_dayc (node d' ! i))"
proof -
  note w = AddNetNode_work_success [OF AddNetNode_work_of [OF r]]
  show ?thesis
  proof (cases "find (\<lambda>r. node_key r = key) (node d)")
    case None
    with w show ?thesis by (auto simp: nth_append)
  next
    case (Some row)
    show ?thesis
    proof (cases "node_payload row = payload")
      case True
      with w Some show ?thesis by simp
    next
      case False
      with w Some obtain dayc where
        cfg: "config_dayc d = Some dayc" and
        n: "node d' = map (\<lambda>r. if node_key r = key
                                      then r\<lparr>node_address := ToBytes address, node_time := tm,
                                             node_owner := owner, node_payload := payload,
                                             node_sig := sg, node_dayc := 30 + dayc\<rparr>
                                      else r) (node d)"
        by auto
      from b cfg have "\<And>i. i < length (node d) \<Longrightarrow> node_dayc (node d ! i) \<le> 30 + dayc"
        by (simp add: node_expiry_bounded_def list_all_length)
      with n show ?thesis by simp
    qed
  qed
qed

lemma day5_bounded: "node_expiry_bounded day5"
  by (simp add: node_expiry_bounded_def day5_def config_dayc_def)

lemma AddCoreNode_day5:
  "AddCoreNode no_faults (\<lambda>a. a) [1] 99 3 8 day5 =
     (None, day5\<lparr>core := [\<lparr>core_address = [1], core_time = 99, core_services = 8, core_isnew = True, core_dayc = 8\<rparr>,
              \<lparr>core_address = [2], core_time = 0, core_services = 0, core_isnew = False, core_dayc = 6\<rparr>]\<rparr>)"
  by (simp add: AddCoreNode_def doTxn_def AddCoreNode_work_def exec_def update_core_def
        config_dayc_def no_faults_def day5_def Let_def)

lemma AddNetNode_day5:
  "AddNetNode no_faults (\<lambda>a. a) tag_name [7] [9] 50 [5] [1, 2] [4, 4] [6] day5 =
     (True, None, day5\<lparr>node := [\<lparr>node_oid = 1, node_key = [7], node_address = [9], node_time = 50, node_owner = [5],
               node_payload = [4, 4], node_sig = [6], node_dayc = 35\<rparr>,
              \<lparr>node_oid = 2, node_key = [8], node_address = [2], node_time = 0, node_owner = [],
               node_payload = [3], node_sig = [], node_dayc = 35\<rparr>],
         chan := [(2, ''chat''), (1, ''chat''), (1, ''news'')]\<rparr>)"
  by (simp add: AddNetNode_def doTxn_def AddNetNode_work_def exec_def select_node_def update_node_def
        AddNetNode_channels_def delete_chan_def insert_chan_def
        config_dayc_def no_faults_def day5_def Let_def tag_name_def)

text \<open>
  C7. A successful \<^verbatim>\<open>AddCoreNode\<close> keeps every row of \<^verbatim>\<open>core\<close> in its place with an
  expiry at least as large as before, and the rows of the given address get exactly
  \<^verbatim>\<open>max(existing, remainDays + dayc)\<close>. A successful \<^verbatim>\<open>AddNetNode\<close> keeps every row of
  \<^verbatim>\<open>node\<close> in its place with an expiry at least as large as before, in every database in
  which no overlay node expires more than 30 days after the day counter (the bound the
  store establishes and keeps, see the lemmas above).
\<close>

theorem C7_expiry_never_decreases:
  "(AddCoreNode f ToBytes address unixTimeSec remainDays services d = (None, d') \<longrightarrow>
      (\<exists>dayc. config_dayc d = Some dayc \<and> length (core d) \<le> length (core d')
         \<and> (\<forall>i < length (core d).
               core_address (core d' ! i) = core_address (core d ! i)
             \<and> core_dayc (core d ! i) \<le> core_dayc (core d' ! i)
             \<and> core_dayc (core d' ! i) =
                 (if core_address (core d ! i) = ToBytes address
                  then max (core_dayc (core d ! i)) (remainDays + dayc)
                  else core_dayc (core d ! i)))))
   \<and> (node_expiry_bounded e
        \<and> AddNetNode g ToBytes' tagString key address' tm owner chans payload sg e = (changed, None, e') \<longrightarrow>
      length (node e) \<le> length (node e')
      \<and> (\<forall>i < length (node e).
            node_key (node e' ! i) = node_key (node e ! i)
          \<and> node_dayc (node e ! i) \<le> node_dayc (node e' ! i)))"
  using AddCoreNode_rows [of f ToBytes address unixTimeSec remainDays services d d']
        AddNetNode_rows [of e g ToBytes' tagString key address' tm owner chans payload sg changed e']
  by blast

text \<open>
  On day 5 the core row of address 1 (expiry 5) is refreshed with three remaining days
  and gets expiry 8; the overlay node of key 7 (expiry 5) is announced again with a new
  payload and gets expiry 35.
\<close>

theorem C7_expiry_never_decreases_witness:
  "fst (AddCoreNode no_faults (\<lambda>a. a) [1] 99 3 8 day5) = None
   \<and> core_dayc (core day5 ! 0) = 5
   \<and> core_dayc (core (snd (AddCoreNode no_faults (\<lambda>a. a) [1] 99 3 8 day5)) ! 0) = 8
   \<and> node_expiry_bounded day5
   \<and> fst (snd (AddNetNode no_faults (\<lambda>a. a) tag_name [7] [9] 50 [5] [1, 2] [4, 4] [6] day5)) = None
   \<and> node_dayc (node day5 ! 0) = 5
   \<and> node_dayc (node day5 ! 0)
       \<le> node_dayc (node (snd (snd (AddNetNode no_faults (\<lambda>a. a) tag_name [7] [9] 50 [5] [1, 2] [4, 4] [6] day5))) ! 0)"
proof -
  have len: "0 < length (core day5)" "0 < length (node day5)"
    by (simp_all add: day5_def)
  have cfg: "config_dayc day5 = Some 5" and row: "core_address (core day5 ! 0) = [1]"
    "core_dayc (core day5 ! 0) = 5" "node_dayc (node day5 ! 0) = 5"
    by (simp_all add: config_dayc_def day5_def)
  from C7_expiry_never_decreases
         [where f = no_faults and ToBytes = "\<lambda>a. a" and address = "[1]" and unixTimeSec = 99
            and remainDays = 3 and services = 8 and d = day5
            and d' = "snd (AddCoreNode no_faults (\<lambda>a. a) [1] 99 3 8 day5)"
            and e = day5 and g = no_faults and ToBytes' = "\<lambda>a. a" and tagString = tag_name
            and key = "[7]" and address' = "[9]" and tm = 50 and owner = "[5]"
            and chans = "[1, 2]" and payload = "[4, 4]" and sg = "[6]" and changed = True
            and e' = "snd (snd (AddNetNode no_faults (\<lambda>a. a) tag_name [7] [9] 50 [5] [1, 2] [4, 4] [6] day5))"]
       AddCoreNode_day5 AddNetNode_day5 day5_bounded len cfg row
  show ?thesis by simp
qed

section \<open>Upsert of an overlay node\<close>

lemma AddNetNode_day5_same:
  "AddNetNode no_faults (\<lambda>a. a) tag_name [7] [9] 50 [5] [1, 2] [1, 2] [6] day5 = (False, None, day5)"
  by (simp add: AddNetNode_def doTxn_def AddNetNode_work_def exec_def select_node_def
        no_faults_def day5_def)

lemma AddNetNode_day5_duplicate:
  "AddNetNode no_faults (\<lambda>a. a) tag_name [7] [9] 50 [5] [1, 1] [4, 4] [6] day5
     = (False, Some (Errorf ''insert channel'' ErrConstraint), day5)"
  by (simp add: AddNetNode_def doTxn_def AddNetNode_work_def exec_def select_node_def update_node_def
        AddNetNode_channels_def delete_chan_def insert_chan_def
        config_dayc_def no_faults_def day5_def Let_def tag_name_def)

lemma AddNetNode_day5_insert:
  "AddNetNode no_faults (\<lambda>a. a) tag_name [9] [9] 50 [5] [2] [4, 4] [6] day5 =
     (True, None, day5\<lparr>node := node day5 @ [\<lparr>node_oid = 3, node_key = [9], node_address = [9], node_time = 50, node_owner = [5],
               node_payload = [4, 4], node_sig = [6], node_dayc = 35\<rparr>],
         chan := [(1, ''chat''), (2, ''chat''), (3, ''news'')]\<rparr>)"
  by (simp add: AddNetNode_def doTxn_def AddNetNode_work_def exec_def select_node_def insert_node_def
        next_rowid_def AddNetNode_channels_def delete_chan_def insert_chan_def
        config_dayc_def no_faults_def day5_def Let_def tag_name_def)

text \<open>
  C4. For a call of \<^verbatim>\<open>AddNetNode\<close> that returns no error: \<^verbatim>\<open>changed\<close> is false exactly
  when a row with the given key exists and its stored payload equals the supplied one
  (and then nothing is written). Otherwise \<^verbatim>\<open>changed\<close> is true and the database is the
  old one with the row inserted (no row of that key before: a new row with the next
  rowid, the supplied fields and expiry 30 + dayc) or updated (the row of that key gets
  the supplied fields and expiry 30 + dayc), and with the \<^verbatim>\<open>chan\<close> rows of that row's
  rowid replaced by one row per supplied channel.
\<close>

theorem C4_addNetNode_changed:
  assumes "AddNetNode f ToBytes tagString key address tm owner chans payload sg d = (changed, None, d')"
  shows "(\<not> changed) = (\<exists>r. find (\<lambda>r. node_key r = key) (node d) = Some r \<and> node_payload r = payload)
       \<and> (case find (\<lambda>r. node_key r = key) (node d) of
           None \<Rightarrow>
             changed \<and> (\<exists>dayc. config_dayc d = Some dayc \<and>
               d' = d\<lparr>node := node d @
                         [\<lparr>node_oid = next_rowid d, node_key = key, node_address = ToBytes address,
                           node_time = tm, node_owner = owner, node_payload = payload,
                           node_sig = sg, node_dayc = 30 + dayc\<rparr>],
                       chan := filter (\<lambda>(n, c). n \<noteq> next_rowid d) (chan d)
                               @ map (\<lambda>c. (next_rowid d, tagString c)) chans\<rparr>)
         | Some r \<Rightarrow>
             if node_payload r = payload then \<not> changed \<and> d' = d
             else changed \<and> (\<exists>dayc. config_dayc d = Some dayc \<and>
               d' = d\<lparr>node := map (\<lambda>r. if node_key r = key
                                      then r\<lparr>node_address := ToBytes address, node_time := tm,
                                             node_owner := owner, node_payload := payload,
                                             node_sig := sg, node_dayc := 30 + dayc\<rparr>
                                      else r) (node d),
                       chan := filter (\<lambda>(n, c). n \<noteq> node_oid r) (chan d)
                               @ map (\<lambda>c. (node_oid r, tagString c)) chans\<rparr>))"
proof -
  note w = AddNetNode_work_success [OF AddNetNode_work_of [OF assms]]
  have "(\<not> changed) = (\<exists>r. find (\<lambda>r. node_key r = key) (node d) = Some r \<and> node_payload r = payload)"
    using w by (cases "find (\<lambda>r. node_key r = key) (node d)") (auto split: if_splits)
  with w show ?thesis by blast
qed

text \<open>
  On day 5: the node of key 7 announced with a new payload (updated), with its stored
  payload (unchanged), and a node of the unknown key 9 (inserted).
\<close>

theorem C4_addNetNode_changed_witness:
  "AddNetNode no_faults (\<lambda>a. a) tag_name [7] [9] 50 [5] [1, 2] [4, 4] [6] day5
     = (True, None, day5\<lparr>node := [\<lparr>node_oid = 1, node_key = [7], node_address = [9], node_time = 50, node_owner = [5],
               node_payload = [4, 4], node_sig = [6], node_dayc = 35\<rparr>,
              \<lparr>node_oid = 2, node_key = [8], node_address = [2], node_time = 0, node_owner = [],
               node_payload = [3], node_sig = [], node_dayc = 35\<rparr>],
         chan := [(2, ''chat''), (1, ''chat''), (1, ''news'')]\<rparr>)
   \<and> (\<nexists>r. find (\<lambda>r. node_key r = [7]) (node day5) = Some r \<and> node_payload r = [4, 4])
   \<and> AddNetNode no_faults (\<lambda>a. a) tag_name [7] [9] 50 [5] [1, 2] [1, 2] [6] day5 = (False, None, day5)
   \<and> (\<exists>r. find (\<lambda>r. node_key r = [7]) (node day5) = Some r \<and> node_payload r = [1, 2])
   \<and> fst (AddNetNode no_faults (\<lambda>a. a) tag_name [9] [9] 50 [5] [2] [4, 4] [6] day5) = True
   \<and> find (\<lambda>r. node_key r = [9]) (node day5) = None"
  using C4_addNetNode_changed [OF AddNetNode_day5]
        C4_addNetNode_changed [OF AddNetNode_day5_same]
        C4_addNetNode_changed [OF AddNetNode_day5_insert]
        AddNetNode_day5 AddNetNode_day5_same AddNetNode_day5_insert
  by (simp add: day5_def)

text \<open>
  C9. Whenever \<^verbatim>\<open>AddNetNode\<close> returns \<^verbatim>\<open>changed = false\<close>, with or without an error, the
  database after the call is the database before it: every row of \<^verbatim>\<open>node\<close> and of
  \<^verbatim>\<open>chan\<close> (and of every other table) is as it was.
\<close>

theorem C9_addNetNode_unchanged:
  assumes "AddNetNode f ToBytes tagString key address tm owner chans payload sg d = (False, err, d')"
  shows "d' = d"
proof (cases err)
  case (Some e)
  with assms have "AddNetNode f ToBytes tagString key address tm owner chans payload sg d
      = (False, Some e, d')" by simp
  then show ?thesis by (rule AddNetNode_rollback)
next
  case None
  with assms have "AddNetNode f ToBytes tagString key address tm owner chans payload sg d
      = (False, None, d')" by simp
  from AddNetNode_work_success [OF AddNetNode_work_of [OF this]] show ?thesis
    by (cases "find (\<lambda>r. node_key r = key) (node d)") (auto split: if_splits)
qed

text \<open>
  The node of key 7 announced with its stored payload; and announced with a new payload
  but the same channel twice, which violates the primary key of \<^verbatim>\<open>chan\<close> and rolls
  the transaction back.
\<close>

theorem C9_addNetNode_unchanged_witness:
  "AddNetNode no_faults (\<lambda>a. a) tag_name [7] [9] 50 [5] [1, 2] [1, 2] [6] day5 = (False, None, day5)
   \<and> snd (snd (AddNetNode no_faults (\<lambda>a. a) tag_name [7] [9] 50 [5] [1, 1] [4, 4] [6] day5)) = day5"
  using C9_addNetNode_unchanged [OF AddNetNode_day5_same]
        C9_addNetNode_unchanged [OF AddNetNode_day5_duplicate]
        AddNetNode_day5_same AddNetNode_day5_duplicate
  by simp

section \<open>Choosing a core node\<close>

text \<open>
  Whatever the random numbers are, a chosen address is the address of a row of \<^verbatim>\<open>core\<close>,
  of a row flagged is-new if there is one and of an old row only if there is none; and
  every row that passes the WHERE clause is chosen for some outcome of the random order.
\<close>

lemma ChooseCoreNode_work_of:
  "ChooseCoreNode f AddressFromBytes rnd1 rnd2 d = (res, None, d')
     \<Longrightarrow> ChooseCoreNode_work f AddressFromBytes rnd1 rnd2 d = (res, None, d')"
  unfolding ChooseCoreNode_def by (rule doTxn_success)

lemma random_row_member:
  "random_row rnd xs = Inr x \<Longrightarrow> x \<in> set xs"
  by (auto simp: random_row_def split: if_splits)

lemma random_row_empty:
  "(random_row rnd xs = Inl e) = (xs = [] \<and> e = ErrNoRows)"
  by (auto simp: random_row_def)

lemma random_row_any:
  "i < length xs \<Longrightarrow> random_row i xs = Inr (xs ! i)"
  by (auto simp: random_row_def)

lemma ChooseCoreNode_prefers_new:
  assumes "ChooseCoreNode f AddressFromBytes rnd1 rnd2 d = (Some a, None, d')"
  shows "d' = d \<and> (\<exists>r \<in> set (core d).
            AddressFromBytes (core_address r) = Inr a
          \<and> core_isnew r = (filter (\<lambda>r. core_isnew r) (core d) \<noteq> []))"
proof (cases "filter (\<lambda>r. core_isnew r) (core d) = []")
  case True
  then have e: "random_row rnd1 (map core_address (filter (\<lambda>r. core_isnew r) (core d))) = Inl ErrNoRows"
    by (simp add: random_row_def)
  from ChooseCoreNode_work_of [OF assms] e obtain addr where
    pick: "random_row rnd2 (map core_address (filter (\<lambda>r. \<not> core_isnew r) (core d))) = Inr addr"
    and dec: "AddressFromBytes addr = Inr a" and d: "d' = d"
    by (auto simp: ChooseCoreNode_work_def exec_def Let_def split: if_splits sum.splits)
  from random_row_member [OF pick] obtain r where "r \<in> set (core d)" "\<not> core_isnew r" "core_address r = addr"
    by auto
  with dec d True show ?thesis by auto
next
  case False
  then obtain addr where
    pick: "random_row rnd1 (map core_address (filter (\<lambda>r. core_isnew r) (core d))) = Inr addr"
    by (auto simp: random_row_def)
  from ChooseCoreNode_work_of [OF assms] pick have
    dec: "AddressFromBytes addr = Inr a" and d: "d' = d"
    by (auto simp: ChooseCoreNode_work_def exec_def Let_def split: if_splits sum.splits)
  from random_row_member [OF pick] obtain r where "r \<in> set (core d)" "core_isnew r" "core_address r = addr"
    by auto
  with dec d False show ?thesis by auto
qed

text \<open>
  C5 at a failing input: on an empty \<^verbatim>\<open>core\<close> table \<^verbatim>\<open>ChooseCoreNode\<close> returns the error
  made by \<^verbatim>\<open>fmt.Errorf("query-not-new: %v", err)\<close> from \<^verbatim>\<open>sql.ErrNoRows\<close>, which is not the
  sentinel \<^verbatim>\<open>spec.NotFoundError\<close>; \<^verbatim>\<open>ChooseNetNodeMsg\<close> on an empty \<^verbatim>\<open>node\<close> table does
  return the sentinel.
\<close>

theorem C5_chooseCoreNode_empty_table:
  "ChooseCoreNode no_faults (\<lambda>b. Inr b) 0 0 (day5\<lparr>core := []\<rparr>)
     = (None, Some (Errorf ''query-not-new'' ErrNoRows), day5\<lparr>core := []\<rparr>)
   \<and> Errorf ''query-not-new'' ErrNoRows \<noteq> NotFoundError
   \<and> ChooseNetNodeMsg no_faults 0 (day5\<lparr>node := []\<rparr>)
     = (([], [], []), Some NotFoundError, day5\<lparr>node := []\<rparr>)"
  by (simp add: ChooseCoreNode_def ChooseCoreNode_work_def ChooseNetNodeMsg_def
        ChooseNetNodeMsg_work_def doTxn_def exec_def random_row_def no_faults_def day5_def Let_def)

section \<open>Errors of Accept\<close>

text \<open>
  C8 at a failing input: when \<^verbatim>\<open>Accept\<close> on the unix socket returns an error, at once or
  after a handler has connected, \<^verbatim>\<open>acceptHandlers\<close> ends the process with exit status 1
  (\<^verbatim>\<open>log.Fatal\<close>, line 162); \<^verbatim>\<open>acceptIncoming\<close> returns in the same situation.
\<close>

theorem C8_accept_error_is_fatal:
  "acceptHandlers True [\<lparr>ar_stop = False, ar_accept = None\<rparr>] example_ns
     = (ProcessExit 1, example_ns)
   \<and> acceptHandlers True [\<lparr>ar_stop = False, ar_accept = Some (10, 1)\<rparr>,
                          \<lparr>ar_stop = False, ar_accept = None\<rparr>] example_ns
     = (ProcessExit 1, example_ns\<lparr>connections := [10], handlers := [1]\<rparr>)
   \<and> fst (acceptIncoming [\<lparr>ar_stop = False, ar_accept = None\<rparr>] example_ns) = TaskReturned"
  by (simp add: acceptHandlers_def trackHandler_def example_ns_def New_def)

section \<open>The announcement task never sees an address change\<close>

lemma timer_driven_simps:
  "timer_driven Exit" "timer_driven (Regossip b msg remain) = (b = TimerFired)"
  by (simp_all add: timer_driven_def)

lemma ready_nil:
  "addrChange ns = NilChan \<Longrightarrow> set (ready ns r) \<subseteq> {TimerFired, ContextDone}"
  by (auto simp: ready_def)

lemma select_nil:
  assumes "addrChange ns = NilChan"
  shows "select ns r = None \<or> select ns r = Some TimerFired \<or> select ns r = Some ContextDone"
proof (cases "ready ns r = []")
  case True
  then show ?thesis by (simp add: select_def)
next
  case False
  then have "ready ns r ! (rd_choice r mod length (ready ns r)) \<in> set (ready ns r)"
    by simp
  with ready_nil [OF assms] have
    "ready ns r ! (rd_choice r mod length (ready ns r)) \<in> {TimerFired, ContextDone}"
    by blast
  with False show ?thesis by (auto simp: select_def)
qed

lemma updateAnnounce_loop_nil:
  "addrChange ns = NilChan \<Longrightarrow>
     list_all timer_driven (fst (updateAnnounce_loop lib f rounds ns d))
   \<and> addrChange (fst (snd (updateAnnounce_loop lib f rounds ns d))) = NilChan
   \<and> nextAnnounce (fst (snd (updateAnnounce_loop lib f rounds ns d))) = nextAnnounce ns"
proof (induction rounds arbitrary: ns d)
  case Nil
  then show ?case by simp
next
  case (Cons r rs)
  show ?case
  proof (cases "stopping ns \<or> rd_stop r")
    case True
    with Cons.prems show ?thesis by simp
  next
    case False
    from select_nil [OF Cons.prems, of r] consider
      (blocked) "select ns r = None" | (timer) "select ns r = Some TimerFired"
      | (ctx) "select ns r = Some ContextDone"
      by auto
    then show ?thesis
    proof cases
      case blocked
      with False Cons.IH [OF Cons.prems, of d] show ?thesis by simp
    next
      case timer
      obtain msg remain d1 where g: "generateAnnounce lib f (rd_now r) (nextAnnounce ns) ns d = (msg, remain, d1)"
        by (metis prod_cases3)
      have n: "addrChange (setAnnounce msg ns) = NilChan"
        using Cons.prems by (simp add: setAnnounce_def)
      obtain steps ns' d' where l: "updateAnnounce_loop lib f rs (setAnnounce msg ns) d1 = (steps, ns', d')"
        by (metis prod_cases3)
      from Cons.IH [OF n, of d1] l have
        "list_all timer_driven steps" "addrChange ns' = NilChan"
        "nextAnnounce ns' = nextAnnounce ns"
        by (simp_all add: setAnnounce_def)
      with False timer g l show ?thesis by (simp add: timer_driven_simps)
    next
      case ctx
      with False Cons.prems show ?thesis by (simp add: timer_driven_simps)
    qed
  qed
qed

text \<open>
  C10. In the service that \<^verbatim>\<open>New\<close> returns, \<^verbatim>\<open>addrChange\<close> is the nil channel. Whatever
  the other goroutines, the timer, the context, the scheduler and the clock do
  (\<^verbatim>\<open>rounds\<close>), whatever the store holds and whichever of its calls fail, every step of
  \<^verbatim>\<open>updateAnnounce\<close> is the exit or a regeneration triggered by the timer: the
  \<^verbatim>\<open>addrChange\<close> branch is never taken, and \<^verbatim>\<open>nextAnnounce\<close> is never replaced.
\<close>

theorem C10_addrChange_never_taken:
  "addrChange (New ServiceCore bind public idenPub nk al) = NilChan
   \<and> list_all timer_driven
       (fst (updateAnnounce lib f now now' rounds (New ServiceCore bind public idenPub nk al) d))
   \<and> nextAnnounce (fst (snd (updateAnnounce lib f now now' rounds
                                 (New ServiceCore bind public idenPub nk al) d)))
       = nextAnnounce (New ServiceCore bind public idenPub nk al)"
proof -
  let ?ns = "New ServiceCore bind public idenPub nk al"
  have nil: "addrChange ?ns = NilChan" by (simp add: New_def)
  obtain msg remain d1 where g: "loadOrGenerateAnnounce lib f now now' ?ns d = (msg, remain, d1)"
    by (metis prod_cases3)
  have n: "addrChange (setAnnounce msg ?ns) = NilChan"
    using nil by (simp add: setAnnounce_def)
  from updateAnnounce_loop_nil [OF n, of lib f rounds d1] g nil show ?thesis
    by (simp add: updateAnnounce_def setAnnounce_def)
qed

section \<open>Loading or generating the announcement\<close>

lemma SetAnnounce_result:
  "SetAnnounce f payload sg tm d =
     (if f 150 then (Some (dbErr EngineError ''cannot begin transaction: SetAnnounce''), d)
      else if f 475 \<or> f 479 \<or> (announce d = [] \<and> f 484) then (Some EngineError, d)
      else if f 173 then (Some (dbErr EngineError ''cannot commit: SetAnnounce''), d)
      else (None, d\<lparr>announce := (if announce d = [] then [(payload, sg, tm)]
                                    else map (\<lambda>row. (payload, sg, tm)) (announce d))\<rparr>))"
  by (simp add: SetAnnounce_def doTxn_def SetAnnounce_work_def Let_def)

lemma GetAnnounce_result:
  "GetAnnounce f d =
     (if f 150 then (([], [], 0), Some (dbErr EngineError ''cannot begin transaction: GetAnnounce''), d)
      else if f 462 then (([], [], 0), Some (Errorf ''query'' EngineError), d)
      else
        (case announce d of
           [] \<Rightarrow> if f 173 then (([], [], 0), Some (dbErr EngineError ''cannot commit: GetAnnounce''), d)
                 else (([], [], 0), None, d)
         | row # rest \<Rightarrow> if f 173 then (row, Some (dbErr EngineError ''cannot commit: GetAnnounce''), d)
                 else (row, None, d)))"
  by (simp add: GetAnnounce_def doTxn_def GetAnnounce_work_def exec_def split: list.splits)

lemma loadOrGenerateAnnounce_cases:
  "loadOrGenerateAnnounce lib f now now' ns d =
     (case announce d of
        [] \<Rightarrow> generateAnnounce lib f now' (nextAnnounce ns) ns d
      | (oldPayload, sg, expires) # rest \<Rightarrow>
          if \<not> f 150 \<and> \<not> f 462 \<and> \<not> f 173
             \<and> AddrMsgMinSize lib \<le> length oldPayload \<and> length sg = 64 \<and> now < expires
             \<and> Encode lib ((nextAnnounce ns)\<lparr>am_Time := am_Time (DecodeAddrMsg lib oldPayload)\<rparr>)
                 = oldPayload
          then (\<lparr>Header = ReEncodeMessage lib (Pub (nodeKey ns)) sg oldPayload, Payload = oldPayload\<rparr>,
                int64 (int64 (expires - now) * Second), d)
          else generateAnnounce lib f now' (nextAnnounce ns) ns d)"
  by (cases "announce d") (auto simp: loadOrGenerateAnnounce_def GetAnnounce_result Let_def)

lemma generateAnnounce_result:
  "generateAnnounce lib f now newMsg ns d =
     (\<lparr>Header = MsgHeader lib (EncodeMessage lib (nodeKey ns)
                   (Encode lib (newMsg\<lparr>am_Time := UnixToDoge lib now\<rparr>))),
       Payload = Encode lib (newMsg\<lparr>am_Time := UnixToDoge lib now\<rparr>)\<rparr>,
      AnnounceLongevity,
      snd (SetAnnounce f (Encode lib (newMsg\<lparr>am_Time := UnixToDoge lib now\<rparr>))
             (MsgSignature lib (EncodeMessage lib (nodeKey ns)
                   (Encode lib (newMsg\<lparr>am_Time := UnixToDoge lib now\<rparr>))))
             (int64 (now + 300)) d))"
  by (simp add: generateAnnounce_def Let_def split: prod.splits)

lemma Duration_seconds:
  assumes "0 \<le> s" and "s < 9223372036"
  shows "int64 (int64 s * Second) = s * 1000000000"
proof -
  have "int64 s = s" using assms by (simp add: int64_id)
  moreover have "int64 (s * 1000000000) = s * 1000000000"
    using assms by (intro int64_id) simp_all
  ultimately show ?thesis by (simp add: Second_def)
qed

lemma example_ns_fields:
  "nextAnnounce example_ns = \<lparr>am_Time = 0, am_Address = replicate 10 0 @ [0xff, 0xff, 203, 0, 113, 5],
       am_Port = 42069, am_Owner = replicate 32 9, am_Channels = [], am_Services = [(1, 22556)]\<rparr>"
  "nodeKey example_ns = \<lparr>Priv = replicate 64 3, Pub = replicate 32 4\<rparr>"
  by (simp_all add: example_ns_def New_def To16_def)

lemma plain_lib_fields:
  "Encode plain_lib m = word_of_int (am_Time m) # am_Owner m"
  "am_Time (DecodeAddrMsg plain_lib (b # bs)) = uint b"
  "AddrMsgMinSize plain_lib = 1"
  "EncodeMessage plain_lib k p = Pub k @ p"
  "ReEncodeMessage plain_lib pub sg p = pub @ sg"
  "MsgSignature plain_lib msg = replicate 64 1"
  "MsgHeader plain_lib msg = take 32 msg"
  "UnixToDoge plain_lib t = t - 800"
  by (simp_all add: plain_lib_def)

lemma reuse_example:
  "loadOrGenerateAnnounce plain_lib no_faults 900 901 example_ns stored_ok
     = (\<lparr>Header = replicate 32 4 @ replicate 64 2, Payload = 5 # replicate 32 9\<rparr>,
        100 * 1000000000, stored_ok)"
proof -
  have "int64 (int64 (1000 - 900) * Second) = 100 * 1000000000"
    using Duration_seconds [of 100] by simp
  then show ?thesis
    by (simp add: loadOrGenerateAnnounce_cases stored_ok_def empty_db_def no_faults_def
          example_ns_fields plain_lib_fields)
qed

lemma short_sig_example:
  "loadOrGenerateAnnounce plain_lib no_faults 900 901 example_ns stored_short_sig
     = (\<lparr>Header = replicate 32 4, Payload = 101 # replicate 32 9\<rparr>, AnnounceLongevity,
        stored_short_sig\<lparr>announce := [(101 # replicate 32 9, replicate 64 1, 1201)]\<rparr>)"
proof -
  have "int64 (901 + 300) = 1201" by (simp add: int64_id)
  then show ?thesis
    by (simp add: loadOrGenerateAnnounce_cases generateAnnounce_result SetAnnounce_result
          stored_short_sig_def empty_db_def no_faults_def example_ns_fields plain_lib_fields)
qed

text \<open>
  C3, as amended. \<^verbatim>\<open>loadOrGenerateAnnounce\<close> reuses the stored payload and signature
  (header re-encoded from them, the store not written, remaining lifetime
  \<^verbatim>\<open>time.Duration(expires - now) * time.Second\<close>) exactly when the stored row can be read,
  its payload has at least \<^verbatim>\<open>AddrMsgMinSize\<close> bytes, its signature has exactly 64 bytes,
  its expiry is in the future and the next announcement with the stored time encodes to
  the stored payload. In every other case the result is that of \<^verbatim>\<open>generateAnnounce\<close>: the
  next announcement stamped with the current time, encoded and signed, returned with
  lifetime \<^verbatim>\<open>AnnounceLongevity\<close>, and handed to \<^verbatim>\<open>SetAnnounce\<close> with expiry now + 300 s,
  which replaces the stored row unless the store fails (then the store is unchanged and
  the fresh announcement is returned all the same). For a lifetime of less than
  9223372036 seconds the duration is that many seconds exactly.
\<close>

theorem C3_loadOrGenerateAnnounce:
  "loadOrGenerateAnnounce lib f now now' ns d =
     (case announce d of
        [] \<Rightarrow> generateAnnounce lib f now' (nextAnnounce ns) ns d
      | (oldPayload, sg, expires) # rest \<Rightarrow>
          if \<not> f 150 \<and> \<not> f 462 \<and> \<not> f 173
             \<and> AddrMsgMinSize lib \<le> length oldPayload \<and> length sg = 64 \<and> now < expires
             \<and> Encode lib ((nextAnnounce ns)\<lparr>am_Time := am_Time (DecodeAddrMsg lib oldPayload)\<rparr>)
                 = oldPayload
          then (\<lparr>Header = ReEncodeMessage lib (Pub (nodeKey ns)) sg oldPayload, Payload = oldPayload\<rparr>,
                int64 (int64 (expires - now) * Second), d)
          else generateAnnounce lib f now' (nextAnnounce ns) ns d)
   \<and> generateAnnounce lib f now' newMsg ns d =
     (\<lparr>Header = MsgHeader lib (EncodeMessage lib (nodeKey ns)
                   (Encode lib (newMsg\<lparr>am_Time := UnixToDoge lib now'\<rparr>))),
       Payload = Encode lib (newMsg\<lparr>am_Time := UnixToDoge lib now'\<rparr>)\<rparr>,
      AnnounceLongevity,
      snd (SetAnnounce f (Encode lib (newMsg\<lparr>am_Time := UnixToDoge lib now'\<rparr>))
             (MsgSignature lib (EncodeMessage lib (nodeKey ns)
                   (Encode lib (newMsg\<lparr>am_Time := UnixToDoge lib now'\<rparr>))))
             (int64 (now' + 300)) d))
   \<and> SetAnnounce f payload sg' tm d =
     (if f 150 then (Some (dbErr EngineError ''cannot begin transaction: SetAnnounce''), d)
      else if f 475 \<or> f 479 \<or> (announce d = [] \<and> f 484) then (Some EngineError, d)
      else if f 173 then (Some (dbErr EngineError ''cannot commit: SetAnnounce''), d)
      else (None, d\<lparr>announce := (if announce d = [] then [(payload, sg', tm)]
                                    else map (\<lambda>row. (payload, sg', tm)) (announce d))\<rparr>))
   \<and> (0 \<le> s \<and> s < 9223372036 \<longrightarrow> int64 (int64 s * Second) = s * 1000000000)"
  using loadOrGenerateAnnounce_cases [of lib f now now' ns d]
        generateAnnounce_result [of lib f now' newMsg ns d]
        SetAnnounce_result [of f payload sg' tm d]
        Duration_seconds [of s]
  by blast

text \<open>Restart at second 900 with the matching announcement stored until second 1000.\<close>

theorem C3_loadOrGenerateAnnounce_witness:
  "loadOrGenerateAnnounce plain_lib no_faults 900 901 example_ns stored_ok
     = (\<lparr>Header = replicate 32 4 @ replicate 64 2, Payload = 5 # replicate 32 9\<rparr>,
        100 * 1000000000, stored_ok)
   \<and> announce stored_ok = [(5 # replicate 32 9, replicate 64 2, 1000)]
   \<and> int64 (int64 (1000 - 900) * Second) = 100 * 1000000000"
  using C3_loadOrGenerateAnnounce [where lib = plain_lib and f = no_faults and now = 900 and now' = 901
          and ns = example_ns and d = stored_ok and s = 100]
        reuse_example
  by (simp add: stored_ok_def empty_db_def)

text \<open>
  The claim as written fails when the stored signature is not 64 bytes long: the stored
  announcement exists, has not expired and encodes identically, and yet a new one is
  signed and written.
\<close>

theorem C3_short_signature_counterexample:
  "announce stored_short_sig = [(5 # replicate 32 9, replicate 63 2, 1000)]
   \<and> (900 :: int) < 1000
   \<and> Encode plain_lib ((nextAnnounce example_ns)
          \<lparr>am_Time := am_Time (DecodeAddrMsg plain_lib (5 # replicate 32 9))\<rparr>) = 5 # replicate 32 9
   \<and> Payload (fst (loadOrGenerateAnnounce plain_lib no_faults 900 901 example_ns stored_short_sig))
        \<noteq> 5 # replicate 32 9
   \<and> announce (snd (snd (loadOrGenerateAnnounce plain_lib no_faults 900 901 example_ns stored_short_sig)))
        = [(101 # replicate 32 9, replicate 64 1, 1201)]"
  by (simp add: short_sig_example)
     (simp add: stored_short_sig_def empty_db_def example_ns_fields plain_lib_fields)

section \<open>The address-change branch on a made channel\<close>

text \<open>
  The branch that the nil channel rules out is taken as soon as the channel is made: in
  one and the same round (a sender waiting, the timer fired, the runtime picking the
  first ready case), a service whose \<^verbatim>\<open>addrChange\<close> has been made regenerates from the
  received message, and the service built by \<^verbatim>\<open>New\<close> regenerates from the timer.
\<close>

lemma example_ns_flags:
  "addrChange example_ns = NilChan" "stopping example_ns = False"
  by (simp_all add: example_ns_def New_def)

lemma made_channel_example:
  "fst (updateAnnounce_loop plain_lib no_faults
          [\<lparr>rd_stop = False, rd_sender = Some m, rd_timer = True, rd_done = False,
            rd_choice = 0, rd_now = 901\<rparr>]
          (example_ns\<lparr>addrChange := MadeChan\<rparr>) stored_ok)
     = [Regossip (AddrChange m)
          \<lparr>Header = replicate 32 4, Payload = word_of_int 101 # am_Owner m\<rparr> AnnounceLongevity]
   \<and> fst (updateAnnounce_loop plain_lib no_faults
          [\<lparr>rd_stop = False, rd_sender = Some m, rd_timer = True, rd_done = False,
            rd_choice = 0, rd_now = 901\<rparr>]
          example_ns stored_ok)
     = [Regossip TimerFired
          \<lparr>Header = replicate 32 4, Payload = 101 # replicate 32 9\<rparr> AnnounceLongevity]"
  by (simp add: select_def ready_def generateAnnounce_result example_ns_fields example_ns_flags
        plain_lib_fields)

end
